theory Spec2Isabelle
  imports Complex_Main
begin

section \<open>Tables, exceptions and the page output\<close>

text \<open>
  The dashboard script \<^verbatim>\<open>xerpihan.py\<close> reads six CSV files into data frames and
  renders one of five pages from them. A data frame is modelled as its ordered list of
  named columns; a column is the list of its cells. A cell holds what a CSV read yields:
  a float or a text. A float is a finite number, given by its exact rational value, an
  infinity, or the missing value NaN. A decimal literal of the script stands for the
  float it denotes. Boolean cells are not modelled.
\<close>

datatype float = Fin rat | PosInf | NegInf | NotNum

datatype cell = Flt float | Str string

abbreviation Num :: "rat \<Rightarrow> cell" where
  "Num x \<equiv> Flt (Fin x)"

abbreviation NaN :: cell where
  "NaN \<equiv> Flt NotNum"

type_synonym series = "cell list"

type_synonym table = "(string \<times> series) list"

text \<open>
  The exceptions that occur: \<^verbatim>\<open>FileNotFoundError\<close> with its \<^verbatim>\<open>filename\<close>,
  \<^verbatim>\<open>KeyError\<close> and any other subclass of \<^verbatim>\<open>Exception\<close>, each with the text
  that \<^verbatim>\<open>str(e)\<close> gives. For a \<^verbatim>\<open>KeyError\<close> that is the repr of its argument:
  the key between quotes when a column or a dict key is absent.
\<close>

datatype exn = FileNotFoundError string | KeyError string | OtherError string

definition quote :: "string \<Rightarrow> string" where
  "quote s = [CHR 0x27] @ s @ [CHR 0x27]"

text \<open>\<^verbatim>\<open>str(e)\<close>.\<close>

fun str_exn :: "exn \<Rightarrow> string" where
  "str_exn (FileNotFoundError fn) =
     ''[Errno 2] No such file or directory: '' @ quote fn"
| "str_exn (KeyError msg) = msg"
| "str_exn (OtherError msg) = msg"

text \<open>
  What the plotting library is asked to draw. The library itself is a parameter of the
  model: a call either raises or returns a figure.
\<close>

datatype plot_call =
    PxLine table string "string list" string
  | PxBar table string "string list" "string option" "string option" string
  | PxScatter table string string string "string option" "nat list option" string
  | PxBox table string string string

text \<open>
  The elements a run puts on the page, in order. A download button carries the table
  whose \<^verbatim>\<open>to_csv(index=False)\<close> text it offers.
\<close>

datatype 'fig event =
    SidebarTitle string
  | Radio string "string list"
  | Title string
  | Header string
  | Subheader string
  | Error string
  | Warning string
  | Metric string string
  | PlotlyChart 'fig
  | DownloadButton string table string string
  | Selectbox string "string list"
  | Dataframe table
  | Markdown string

text \<open>
  The exceptions whose text pandas composes itself: the mean of a column that holds a
  text, the selection of several columns of which some are absent, and a
  \<^verbatim>\<open>melt\<close> that names absent columns.
\<close>

datatype lib_error = MeanOfText | NotInIndex "string list" | MeltAbsent "string list"

text \<open>
  The environment of a run: the files on disk; the plotting library; the float that
  \<^verbatim>\<open>pd.to_numeric\<close> parses a text to (NaN for a text that is not a number, an
  infinity for a text such as \<^verbatim>\<open>inf\<close>); the mean that pandas computes in binary64
  for a column whose sums are rounded or infinite; the texts of the exceptions that
  pandas composes; and the index the user has chosen in each widget (by the widget's
  label).
\<close>

datatype csv_file = Missing | Unparseable string | Content table

record 'fig env =
  files :: "string \<Rightarrow> csv_file"
  px :: "plot_call \<Rightarrow> exn + 'fig"
  to_num :: "string \<Rightarrow> float"
  float_mean :: "float list \<Rightarrow> float"
  lib_text :: "lib_error \<Rightarrow> string"
  choice :: "string \<Rightarrow> nat"

section \<open>The dataset loader\<close>

text \<open>
  \<^verbatim>\<open>pd.read_csv(path)\<close>: a missing file raises \<^verbatim>\<open>FileNotFoundError\<close> whose
  \<^verbatim>\<open>filename\<close> is the path; a file that cannot be parsed raises another exception.
\<close>

definition read_csv :: "(string \<Rightarrow> csv_file) \<Rightarrow> string \<Rightarrow> exn + table" where
  "read_csv fs path =
     (case fs path of
        Missing \<Rightarrow> Inl (FileNotFoundError path)
      | Unparseable msg \<Rightarrow> Inl (OtherError msg)
      | Content t \<Rightarrow> Inr t)"

definition csv_paths :: "string list" where
  "csv_paths =
     [''xerpihan_combined_data.csv'',
      ''xerpihan_combined_data_with_growth.csv'',
      ''xerpihan_comprehensive_metrics.csv'',
      ''xerpihan_final_summary.csv'',
      ''xerpihan_financial_metrics.csv'',
      ''xerpihan_forecast_combined.csv'']"

text \<open>The six reads of the \<^verbatim>\<open>try\<close> body, in order; the first exception ends them.\<close>

definition read_six ::
  "(string \<Rightarrow> csv_file) \<Rightarrow> exn + (table \<times> table \<times> table \<times> table \<times> table \<times> table)" where
  "read_six fs =
     (case read_csv fs ''xerpihan_combined_data.csv'' of Inl e \<Rightarrow> Inl e | Inr combined_data \<Rightarrow>
      case read_csv fs ''xerpihan_combined_data_with_growth.csv'' of Inl e \<Rightarrow> Inl e | Inr growth_data \<Rightarrow>
      case read_csv fs ''xerpihan_comprehensive_metrics.csv'' of Inl e \<Rightarrow> Inl e | Inr metrics \<Rightarrow>
      case read_csv fs ''xerpihan_final_summary.csv'' of Inl e \<Rightarrow> Inl e | Inr final_summary \<Rightarrow>
      case read_csv fs ''xerpihan_financial_metrics.csv'' of Inl e \<Rightarrow> Inl e | Inr financial_metrics \<Rightarrow>
      case read_csv fs ''xerpihan_forecast_combined.csv'' of Inl e \<Rightarrow> Inl e | Inr forecast_combined \<Rightarrow>
      Inr (combined_data, growth_data, metrics, final_summary, financial_metrics,
           forecast_combined))"

type_synonym loaded =
  "table option \<times> table option \<times> table option \<times> table option \<times> table option \<times> table option"

definition six_none :: loaded where
  "six_none = (None, None, None, None, None, None)"

text \<open>
  \<^verbatim>\<open>load_data()\<close>: the elements it shows and the six-tuple it returns. The handler
  for \<^verbatim>\<open>FileNotFoundError\<close> comes first, the one for \<^verbatim>\<open>Exception\<close> second.
  A run calls the loader once; the memoisation by \<^verbatim>\<open>st.cache_data\<close> across runs is
  not modelled.
\<close>

definition load_data :: "'fig env \<Rightarrow> 'fig event list \<times> loaded" where
  "load_data env =
     (case read_six (files env) of
        Inr (combined_data, growth_data, metrics, final_summary, financial_metrics,
             forecast_combined) \<Rightarrow>
          ([], (Some combined_data, Some growth_data, Some metrics, Some final_summary,
                Some financial_metrics, Some forecast_combined))
      | Inl (FileNotFoundError filename) \<Rightarrow>
          ([Error (''Error: File '' @ quote filename @
                   '' tidak ditemukan. Pastikan semua file CSV ada di direktori yang benar.'')],
           six_none)
      | Inl e \<Rightarrow>
          ([Error (''Error saat memuat data: '' @ str_exn e @
                   ''. Periksa format file CSV dan pastikan kolom yang diharapkan ada.'')],
           six_none))"

section \<open>Data-frame operations\<close>

definition columns :: "table \<Rightarrow> string list" where
  "columns t = map fst t"

text \<open>\<^verbatim>\<open>df[c]\<close> raises \<^verbatim>\<open>KeyError\<close> when there is no column \<open>c\<close>.\<close>

definition getitem :: "table \<Rightarrow> string \<Rightarrow> exn + series" where
  "getitem t c =
     (case map_of t c of None \<Rightarrow> Inl (KeyError (quote c)) | Some col \<Rightarrow> Inr col)"

text \<open>\<^verbatim>\<open>df[c] = v\<close> replaces the column in its place, or appends a new one.\<close>

fun setitem :: "table \<Rightarrow> string \<Rightarrow> series \<Rightarrow> table" where
  "setitem [] c v = [(c, v)]"
| "setitem ((n, col) # t) c v = (if n = c then (n, v) # t else (n, col) # setitem t c v)"

text \<open>
  \<^verbatim>\<open>pd.to_numeric(col, errors='coerce')\<close>: a float stays, a text becomes the float it
  parses to, which is NaN when the text is not a number.
\<close>

fun coerce :: "(string \<Rightarrow> float) \<Rightarrow> cell \<Rightarrow> cell" where
  "coerce p (Flt f) = Flt f"
| "coerce p (Str s) = Flt (p s)"

definition to_numeric :: "(string \<Rightarrow> float) \<Rightarrow> series \<Rightarrow> series" where
  "to_numeric p col = map (coerce p) col"

fun is_text :: "cell \<Rightarrow> bool" where
  "is_text (Str s) = True"
| "is_text c = False"

text \<open>The floats of a column, and among floats those that are not NaN.\<close>

fun floats :: "series \<Rightarrow> float list" where
  "floats [] = []"
| "floats (Flt f # col) = f # floats col"
| "floats (Str s # col) = floats col"

definition present :: "float list \<Rightarrow> float list" where
  "present fs = filter (\<lambda>f. f \<noteq> NotNum) fs"

fun finite_values :: "float list \<Rightarrow> rat list option" where
  "finite_values [] = Some []"
| "finite_values (Fin x # fs) = map_option ((#) x) (finite_values fs)"
| "finite_values (f # fs) = None"

text \<open>
  A number that binary64 holds exactly: an integer below \<open>2 ^ 53\<close> in magnitude times
  \<open>2 ^ - k\<close> for some \<open>k\<close> up to 1074.
\<close>

definition binary64 :: "rat \<Rightarrow> bool" where
  "binary64 x =
     list_ex (\<lambda>k. of_int \<lfloor>x * 2 ^ k\<rfloor> = x * 2 ^ k \<and> \<bar>x\<bar> * 2 ^ k < 2 ^ 53) [0..<1075]"

text \<open>
  Numbers whose mean binary64 arithmetic computes exactly, in whatever order the
  library adds them: all are multiples of one \<open>2 ^ - k\<close>, their magnitudes add up to
  less than \<open>2 ^ 53\<close> such multiples, so that every partial sum is held exactly, and
  the quotient by the count is held exactly too.
\<close>

definition exact_mean :: "rat list \<Rightarrow> bool" where
  "exact_mean xs =
     (list_ex (\<lambda>k. list_all (\<lambda>x. of_int \<lfloor>x * 2 ^ k\<rfloor> = x * 2 ^ k) xs \<and>
                    sum_list (map abs xs) * 2 ^ k < 2 ^ 53) [0..<1075] \<and>
      binary64 (sum_list xs / of_nat (length xs)))"

text \<open>
  The mean of floats as pandas computes it, skipping NaN: NaN when no float is left,
  the sum over the count when these are finite and binary64 arithmetic on them is
  exact, and otherwise (rounded sums, overflow, infinities) what the library returns.
\<close>

definition mean64 :: "(float list \<Rightarrow> float) \<Rightarrow> float list \<Rightarrow> float" where
  "mean64 lib fs =
     (if present fs = [] then NotNum
      else case finite_values (present fs) of
             None \<Rightarrow> lib fs
           | Some xs \<Rightarrow>
               if exact_mean xs then Fin (sum_list xs / of_nat (length xs)) else lib fs)"

text \<open>
  \<^verbatim>\<open>col.mean()\<close>: on a column that holds a text it raises a \<^verbatim>\<open>TypeError\<close>.
\<close>

definition series_mean ::
  "(lib_error \<Rightarrow> string) \<Rightarrow> (float list \<Rightarrow> float) \<Rightarrow> series \<Rightarrow> exn + float" where
  "series_mean txt lib col =
     (if list_ex is_text col then Inl (OtherError (txt MeanOfText))
      else Inr (mean64 lib (floats col)))"

text \<open>\<^verbatim>\<open>df[names].isnull().any().any()\<close>; absent names raise \<^verbatim>\<open>KeyError\<close>.\<close>

definition any_null :: "(lib_error \<Rightarrow> string) \<Rightarrow> table \<Rightarrow> string list \<Rightarrow> exn + bool" where
  "any_null txt t names =
     (case filter (\<lambda>c. c \<notin> set (columns t)) names of
        [] \<Rightarrow> Inr (list_ex (\<lambda>c. case map_of t c of None \<Rightarrow> False | Some col \<Rightarrow> NaN \<in> set col) names)
      | c # cs \<Rightarrow> Inl (KeyError (txt (NotInIndex (c # cs)))))"

definition nrows :: "table \<Rightarrow> nat" where
  "nrows t = (case t of [] \<Rightarrow> 0 | (n, col) # t' \<Rightarrow> length col)"

text \<open>\<^verbatim>\<open>df.empty\<close>: no column or no row.\<close>

definition df_empty :: "table \<Rightarrow> bool" where
  "df_empty t = (t = [] \<or> nrows t = 0)"

text \<open>\<^verbatim>\<open>df[mask]\<close>: the rows at which the mask is true, in every column.\<close>

definition keep :: "bool list \<Rightarrow> series \<Rightarrow> series" where
  "keep flags col = map fst (filter snd (zip col flags))"

definition filter_rows :: "bool list \<Rightarrow> table \<Rightarrow> table" where
  "filter_rows flags t = map (\<lambda>(n, col). (n, keep flags col)) t"

text \<open>\<^verbatim>\<open>col == text\<close>, cell by cell.\<close>

definition eq_mask :: "series \<Rightarrow> string \<Rightarrow> bool list" where
  "eq_mask col text = map (\<lambda>c. c = Str text) col"

text \<open>
  A column has a numeric dtype when it has rows and holds floats only (a CSV read
  gives a column without rows the object dtype).
\<close>

definition numeric_dtype :: "series \<Rightarrow> bool" where
  "numeric_dtype col = (col \<noteq> [] \<and> \<not> list_ex is_text col)"

definition select_dtypes_number :: "table \<Rightarrow> table" where
  "select_dtypes_number t = filter (\<lambda>(n, col). numeric_dtype col) t"

text \<open>
  \<^verbatim>\<open>df.melt(id_vars=[idv], value_vars=..., var_name=..., value_name=...)\<close>: one row
  per row and value column. Without \<^verbatim>\<open>value_vars\<close> every other column is a value
  column. Columns that are asked for and absent raise \<^verbatim>\<open>KeyError\<close>.
\<close>

definition melt ::
  "(lib_error \<Rightarrow> string) \<Rightarrow> table \<Rightarrow> string \<Rightarrow> string list option \<Rightarrow> string \<Rightarrow> string \<Rightarrow>
   exn + table" where
  "melt txt t idv value_vars var_name value_name =
     (let vs = (case value_vars of None \<Rightarrow> filter (\<lambda>c. c \<noteq> idv) (columns t) | Some l \<Rightarrow> l)
      in case filter (\<lambda>c. c \<notin> set (columns t)) (idv # vs) of
           c # cs \<Rightarrow> Inl (KeyError (txt (MeltAbsent (c # cs))))
         | [] \<Rightarrow>
             Inr [(idv, concat (map (\<lambda>v. case map_of t idv of None \<Rightarrow> [] | Some col \<Rightarrow> col) vs)),
                  (var_name, concat (map (\<lambda>v. replicate (nrows t) (Str v)) vs)),
                  (value_name, concat (map (\<lambda>v. case map_of t v of None \<Rightarrow> [] | Some col \<Rightarrow> col) vs))])"

section \<open>Text rendering\<close>

text \<open>\<^verbatim>\<open>str(n)\<close> for a natural number; \<open>digit\<close> is only applied below ten.\<close>

definition digit :: "nat \<Rightarrow> char" where
  "digit d = ''0123456789'' ! d"

fun str_nat :: "nat \<Rightarrow> string" where
  "str_nat n = (if n < 10 then [digit n] else str_nat (n div 10) @ [digit (n mod 10)])"

declare str_nat.simps [simp del]

text \<open>Rounding to the nearest integer, ties to the even one.\<close>

definition round_half_even :: "rat \<Rightarrow> int" where
  "round_half_even x =
     (let f = \<lfloor>x\<rfloor>; r = x - of_int f
      in if r < 1 / 2 then f else if 1 / 2 < r then f + 1 else if even f then f else f + 1)"

text \<open>
  The format \<^verbatim>\<open>:.2f\<close> of a float: sign, integer part, point, two decimals; the
  infinities print \<^verbatim>\<open>inf\<close> and \<^verbatim>\<open>-inf\<close>, NaN prints \<^verbatim>\<open>nan\<close>.
\<close>

fun fmt2f :: "float \<Rightarrow> string" where
  "fmt2f NotNum = ''nan''"
| "fmt2f PosInf = ''inf''"
| "fmt2f NegInf = ''-inf''"
| "fmt2f (Fin x) =
     (let n = nat (round_half_even (\<bar>x\<bar> * 100))
      in (if x < 0 then ''-'' else []) @ str_nat (n div 100) @ ''.'' @
         [digit (n mod 100 div 10), digit (n mod 10)])"

text \<open>\<^verbatim>\<open>needle in text\<close> on strings: \<open>needle\<close> occurs in \<open>text\<close> as a contiguous piece.\<close>

fun starts_with :: "string \<Rightarrow> string \<Rightarrow> bool" where
  "starts_with [] text = True"
| "starts_with (a # needle) [] = False"
| "starts_with (a # needle) (b # text) = (a = b \<and> starts_with needle text)"

fun str_in :: "string \<Rightarrow> string \<Rightarrow> bool" where
  "str_in needle [] = (needle = [])"
| "str_in needle (b # text) = (starts_with needle (b # text) \<or> str_in needle text)"

section \<open>Statements\<close>

text \<open>
  The script's variables that hold the six tables, and the state of a run: the tables
  and the elements shown so far. A statement takes the state to a new one and either
  completes (\<open>None\<close>) or leaves with an exception.
\<close>

record table_set =
  combined_data :: table
  growth_data :: table
  metrics :: table
  final_summary :: table
  financial_metrics :: table
  forecast_combined :: table

record 'fig state =
  tabs :: table_set
  out :: "'fig event list"

type_synonym 'fig stmt = "'fig state \<Rightarrow> exn option \<times> 'fig state"

definition emit :: "'fig event \<Rightarrow> 'fig stmt" where
  "emit ev s = (None, s\<lparr>out := out s @ [ev]\<rparr>)"

text \<open>Statements one after another: an exception skips the rest.\<close>

fun block :: "'fig stmt list \<Rightarrow> 'fig stmt" where
  "block [] s = (None, s)"
| "block (c # cs) s = (case c s of (Some e, s') \<Rightarrow> (Some e, s') | (None, s') \<Rightarrow> block cs s')"

text \<open>\<^verbatim>\<open>try: body except Exception as e: handler\<close>.\<close>

definition try_except :: "'fig stmt \<Rightarrow> (exn \<Rightarrow> 'fig stmt) \<Rightarrow> 'fig stmt" where
  "try_except body handler s =
     (case body s of (Some e, s') \<Rightarrow> handler e s' | (None, s') \<Rightarrow> (None, s'))"

text \<open>An expression that may raise, and the statement that uses its value.\<close>

definition eval :: "exn + 'a \<Rightarrow> ('a \<Rightarrow> 'fig stmt) \<Rightarrow> 'fig stmt" where
  "eval r k s = (case r of Inl e \<Rightarrow> (Some e, s) | Inr v \<Rightarrow> k v s)"

text \<open>\<^verbatim>\<open>fig = px...(...); st.plotly_chart(fig, use_container_width=True)\<close>.\<close>

definition plot :: "'fig env \<Rightarrow> plot_call \<Rightarrow> 'fig stmt" where
  "plot env call = eval (px env call) (\<lambda>fig. emit (PlotlyChart fig))"

text \<open>
  \<^verbatim>\<open>st.selectbox(label, options)\<close> and \<^verbatim>\<open>st.radio(label, options)\<close> return the
  option the user has chosen, the first one by default, \<^verbatim>\<open>None\<close> when there is no
  option.
\<close>

definition chosen :: "'fig env \<Rightarrow> string \<Rightarrow> string list \<Rightarrow> string option" where
  "chosen env label options =
     (if options = [] then None
      else Some (options ! (if choice env label < length options then choice env label else 0)))"

definition str_opt :: "string option \<Rightarrow> string" where
  "str_opt v = (case v of None \<Rightarrow> ''None'' | Some s \<Rightarrow> s)"

text \<open>\<^verbatim>\<open>d[k]\<close> on a dict raises \<^verbatim>\<open>KeyError\<close> for an absent key.\<close>

definition dict_getitem :: "(string \<times> 'v) list \<Rightarrow> string option \<Rightarrow> exn + 'v" where
  "dict_getitem d k =
     (case k of
        None \<Rightarrow> Inl (KeyError ''None'')
      | Some name \<Rightarrow>
          (case map_of d name of None \<Rightarrow> Inl (KeyError (quote name)) | Some v \<Rightarrow> Inr v))"

section \<open>The Overview page\<close>

text \<open>\<^verbatim>\<open>metrics[c] = pd.to_numeric(metrics[c], errors='coerce')\<close>.\<close>

definition convert_column :: "'fig env \<Rightarrow> string \<Rightarrow> 'fig stmt" where
  "convert_column env c s =
     eval (getitem (metrics (tabs s)) c)
       (\<lambda>col s. (None, s\<lparr>tabs := (tabs s)\<lparr>metrics :=
                    setitem (metrics (tabs s)) c (to_numeric (to_num env) col)\<rparr>\<rparr>)) s"

definition kpi_columns :: "string list" where
  "kpi_columns = [''Revenue_CAGR'', ''Avg_EBITDA_Margin'', ''Cost_to_Revenue'']"

definition null_warning :: "'fig env \<Rightarrow> 'fig stmt" where
  "null_warning env s =
     eval (any_null (lib_text env) (metrics (tabs s)) kpi_columns)
       (\<lambda>b. if b then emit (Warning
          ''Beberapa data numerik tidak valid dan diubah menjadi NaN. Periksa data Anda.'')
        else block []) s"

text \<open>\<^verbatim>\<open>st.metric(label=..., value=f"{metrics[c].mean():.2f}%")\<close>.\<close>

definition metric_tile :: "'fig env \<Rightarrow> string \<Rightarrow> string \<Rightarrow> 'fig stmt" where
  "metric_tile env label c s =
     eval (getitem (metrics (tabs s)) c)
       (\<lambda>col. eval (series_mean (lib_text env) (float_mean env) col)
          (\<lambda>m. emit (Metric label (fmt2f m @ ''%'')))) s"

definition kpi_body :: "'fig env \<Rightarrow> 'fig stmt" where
  "kpi_body env =
     block [convert_column env ''Revenue_CAGR'',
            convert_column env ''Avg_EBITDA_Margin'',
            convert_column env ''Cost_to_Revenue'',
            null_warning env,
            metric_tile env ''Rata-rata Revenue CAGR'' ''Revenue_CAGR'',
            metric_tile env ''Rata-rata EBITDA Margin'' ''Avg_EBITDA_Margin'',
            metric_tile env ''Rata-rata Efisiensi Biaya'' ''Cost_to_Revenue'']"

definition kpi_section :: "'fig env \<Rightarrow> 'fig stmt" where
  "kpi_section env =
     try_except (kpi_body env)
       (\<lambda>e. emit (Error (''Error saat mengkonversi data numerik: '' @ str_exn e)))"

text \<open>\<^verbatim>\<open>[str(year) for year in range(2024, 2032)]\<close>.\<close>

definition years :: "string list" where
  "years = map str_nat [2024..<2032]"

definition revenue_body :: "'fig env \<Rightarrow> 'fig stmt" where
  "revenue_body env s =
     eval (getitem (combined_data (tabs s)) ''Category'')
       (\<lambda>category.
          let revenue_data = filter_rows (eq_mask category ''Pendapatan'') (combined_data (tabs s))
          in if df_empty revenue_data
             then emit (Error ''Error: Tidak ada data pendapatan yang ditemukan.'')
             else if \<not> list_all (\<lambda>year. year \<in> set (columns revenue_data)) years
             then emit (Error ''Error: Beberapa kolom tahun tidak ada di data pendapatan.'')
             else plot env (PxLine revenue_data ''Scenario'' years
                              ''Tren Pendapatan (2024-2031)'')) s"

definition revenue_section :: "'fig env \<Rightarrow> 'fig stmt" where
  "revenue_section env =
     try_except (revenue_body env)
       (\<lambda>e. emit (Error (''Error saat membuat visualisasi tren pendapatan: '' @ str_exn e)))"

definition downloads :: "'fig stmt" where
  "downloads s =
     block [emit (DownloadButton ''Unduh Financial Metrics'' (financial_metrics (tabs s))
                    ''financial_metrics.csv'' ''text/csv''),
            emit (DownloadButton ''Unduh Summary Data'' (final_summary (tabs s))
                    ''final_summary.csv'' ''text/csv'')] s"

definition dataset_names :: "string list" where
  "dataset_names =
     [''Combined Data'', ''Growth Data'', ''Metrics'', ''Final Summary'', ''Financial Metrics'']"

definition datasets :: "table_set \<Rightarrow> (string \<times> table) list" where
  "datasets ts =
     [(''Combined Data'', combined_data ts),
      (''Growth Data'', growth_data ts),
      (''Metrics'', metrics ts),
      (''Final Summary'', final_summary ts),
      (''Financial Metrics'', financial_metrics ts)]"

definition exploration :: "'fig env \<Rightarrow> 'fig stmt" where
  "exploration env s =
     (let label = ''Pilih dataset untuk dieksplorasi'';
          dataset_name = chosen env label dataset_names
      in block [emit (Selectbox label dataset_names),
                eval (dict_getitem (datasets (tabs s)) dataset_name) (\<lambda>t. emit (Dataframe t))]) s"

definition overview :: "'fig env \<Rightarrow> 'fig stmt" where
  "overview env =
     block [emit (Title ''Xerpihan Financial Analysis Dashboard''),
            emit (Header ''Indikator Kinerja Utama''),
            kpi_section env,
            emit (Subheader ''Tren Pendapatan per Skenario''),
            revenue_section env,
            emit (Subheader ''Unduh Data''),
            downloads,
            emit (Subheader ''Eksplorasi Data''),
            exploration env]"

section \<open>The Financial Analysis page\<close>

definition metrics_chart_body :: "'fig env \<Rightarrow> 'fig stmt" where
  "metrics_chart_body env s =
     plot env (PxBar (financial_metrics (tabs s)) ''Scenario''
                 [''Revenue_CAGR'', ''Avg_EBITDA_Margin'', ''Avg_Net_Margin''] None
                 (Some ''group'') ''Perbandingan Metrik Keuangan'') s"

definition metrics_chart :: "'fig env \<Rightarrow> 'fig stmt" where
  "metrics_chart env =
     try_except (metrics_chart_body env)
       (\<lambda>e. emit (Error (''Error saat membuat visualisasi metrik keuangan: '' @ str_exn e)))"

definition growth_chart_body :: "'fig env \<Rightarrow> 'fig stmt" where
  "growth_chart_body env s =
     plot env (PxLine (final_summary (tabs s)) ''Scenario''
                 [''Revenue_CAGR'', ''EBITDA_CAGR''] ''Metrik Pertumbuhan per Skenario'') s"

definition growth_chart :: "'fig env \<Rightarrow> 'fig stmt" where
  "growth_chart env =
     try_except (growth_chart_body env)
       (\<lambda>e. emit (Error (''Error saat membuat visualisasi analisis pertumbuhan: '' @ str_exn e)))"

definition custom_body :: "'fig env \<Rightarrow> 'fig stmt" where
  "custom_body env s =
     (let numeric_cols = columns (select_dtypes_number (financial_metrics (tabs s)))
      in if numeric_cols = []
         then emit (Error ''Error: Tidak ada kolom numerik yang ditemukan di financial_metrics.'')
         else
           (let x_axis = chosen env ''Pilih metrik sumbu X'' numeric_cols;
                y_axis = chosen env ''Pilih metrik sumbu Y'' numeric_cols
            in block [emit (Selectbox ''Pilih metrik sumbu X'' numeric_cols),
                      emit (Selectbox ''Pilih metrik sumbu Y'' numeric_cols),
                      plot env (PxScatter (financial_metrics (tabs s)) (str_opt x_axis)
                                  (str_opt y_axis) ''Scenario'' (Some ''ols'') None
                                  (str_opt y_axis @ '' vs '' @ str_opt x_axis @
                                   '' per Skenario''))])) s"

definition custom_section :: "'fig env \<Rightarrow> 'fig stmt" where
  "custom_section env =
     try_except (custom_body env)
       (\<lambda>e. emit (Error (''Error saat membuat visualisasi kustom: '' @ str_exn e)))"

definition financial_analysis :: "'fig env \<Rightarrow> 'fig stmt" where
  "financial_analysis env =
     block [emit (Title ''Analisis Kinerja Keuangan''),
            emit (Subheader ''Metrik Keuangan Utama per Skenario''),
            metrics_chart env,
            emit (Subheader ''Analisis Pertumbuhan''),
            growth_chart env,
            emit (Subheader ''Visualisasi Kustom''),
            custom_section env]"

section \<open>The Risk Analysis page\<close>

definition risk_body :: "'fig env \<Rightarrow> 'fig stmt" where
  "risk_body env s =
     eval (getitem (metrics (tabs s)) ''Scenario'') (\<lambda>scenario.
     eval (getitem (metrics (tabs s)) ''Revenue_Volatility'') (\<lambda>revenue_volatility.
     eval (getitem (metrics (tabs s)) ''Margin_Volatility'') (\<lambda>margin_volatility.
       let risk_data = [(''Scenario'', scenario),
                        (''Revenue_Volatility'', revenue_volatility),
                        (''Margin_Volatility'', margin_volatility)]
       in plot env (PxBar risk_data ''Scenario'' [''Revenue_Volatility'', ''Margin_Volatility'']
                      None (Some ''group'') ''Metrik Volatilitas per Skenario'')))) s"

text \<open>
  The text of the two handlers: the one for \<^verbatim>\<open>KeyError\<close> comes first, the one for
  \<^verbatim>\<open>Exception\<close> second.
\<close>

definition risk_error :: "exn \<Rightarrow> string" where
  "risk_error e =
     (case e of
        KeyError msg \<Rightarrow> ''Error: Kolom '' @ str_exn e @ '' tidak ditemukan di data metrics.''
      | _ \<Rightarrow> ''Error saat membuat visualisasi risiko: '' @ str_exn e)"

definition risk_section :: "'fig env \<Rightarrow> 'fig stmt" where
  "risk_section env = try_except (risk_body env) (\<lambda>e. emit (Error (risk_error e)))"

definition risk_components :: table where
  "risk_components =
     [(''Scenario'', [Str ''Optimistic'', Str ''Moderate'', Str ''Pessimistic'']),
      (''Market_Risk'', [Num 0.15, Num 0.12, Num 0.10]),
      (''Credit_Risk'', [Num 0.08, Num 0.07, Num 0.06]),
      (''Operational_Risk'', [Num 0.05, Num 0.04, Num 0.03])]"

definition decomposition_body :: "'fig env \<Rightarrow> 'fig stmt" where
  "decomposition_body env =
     eval (melt (lib_text env) risk_components ''Scenario'' None ''Risk_Type'' ''Risk_Level'')
       (\<lambda>long. plot env (PxBar long ''Scenario'' [''Risk_Level''] (Some ''Risk_Type'') None
                           ''Dekomposisi Risiko per Skenario''))"

definition decomposition_section :: "'fig env \<Rightarrow> 'fig stmt" where
  "decomposition_section env =
     try_except (decomposition_body env)
       (\<lambda>e. emit (Error (''Error saat membuat visualisasi dekomposisi risiko: '' @ str_exn e)))"

definition risk_analysis :: "'fig env \<Rightarrow> 'fig stmt" where
  "risk_analysis env =
     block [emit (Title ''Analisis Risiko''),
            emit (Subheader ''Metrik Risiko per Skenario''),
            risk_section env,
            emit (Subheader ''Analisis Dekomposisi Risiko''),
            decomposition_section env]"

section \<open>The Portfolio Optimization page\<close>

definition portfolio_data :: table where
  "portfolio_data =
     [(''Method'', [Str ''HJB'', Str ''Markowitz'', Str ''Black-Litterman'', Str ''RL'']),
      (''Optimistic'', [Num 1.000, Num 0.333, Num 0.407, Num 0.055]),
      (''Moderate'', [Num 0.000, Num 0.333, Num 0.407, Num 0.775]),
      (''Pessimistic'', [Num 0.000, Num 0.333, Num 0.296, Num 0.170])]"

definition allocation_body :: "'fig env \<Rightarrow> 'fig stmt" where
  "allocation_body env =
     eval (melt (lib_text env) portfolio_data ''Method'' None ''Scenario'' ''Weight'')
       (\<lambda>long. plot env (PxBar long ''Method'' [''Weight''] (Some ''Scenario'') None
                           ''Alokasi Portofolio per Metode''))"

definition allocation_section :: "'fig env \<Rightarrow> 'fig stmt" where
  "allocation_section env =
     try_except (allocation_body env)
       (\<lambda>e. emit (Error (''Error saat membuat visualisasi alokasi portofolio: '' @ str_exn e)))"

definition performance_data :: table where
  "performance_data =
     [(''Method'', [Str ''HJB'', Str ''Markowitz'', Str ''Black-Litterman'', Str ''RL'']),
      (''Expected_Return'', [Num 0.1854, Num 0.1400, Num 0.0786, Num 0.1348]),
      (''Sharpe_Ratio'', [Num 1017000000000000, Num 1985000000000000, Num 367900000000000,
                          Num 1746000000000000])]"

definition performance_body :: "'fig env \<Rightarrow> 'fig stmt" where
  "performance_body env =
     plot env (PxScatter performance_data ''Expected_Return'' ''Sharpe_Ratio'' ''Method''
                 None (Some (replicate 4 20)) ''Analisis Risiko-Hasil'')"

definition performance_section :: "'fig env \<Rightarrow> 'fig stmt" where
  "performance_section env =
     try_except (performance_body env)
       (\<lambda>e. emit (Error (''Error saat membuat visualisasi metrik kinerja: '' @ str_exn e)))"

definition portfolio_optimization :: "'fig env \<Rightarrow> 'fig stmt" where
  "portfolio_optimization env =
     block [emit (Title ''Optimasi Portofolio''),
            emit (Subheader ''Alokasi Portofolio per Metode''),
            allocation_section env,
            emit (Subheader ''Metrik Kinerja per Metode''),
            performance_section env]"

section \<open>The Forecasting page\<close>

definition forecast_body :: "'fig env \<Rightarrow> 'fig stmt" where
  "forecast_body env s =
     eval (getitem (forecast_combined (tabs s)) ''Category'')
       (\<lambda>category.
          let forecast_data =
                filter_rows (eq_mask category ''Pendapatan'') (forecast_combined (tabs s))
          in if df_empty forecast_data
             then emit (Error ''Error: Tidak ada data peramalan pendapatan yang ditemukan.'')
             else if \<not> list_all (\<lambda>year. year \<in> set (columns forecast_data)) years
             then emit (Error ''Error: Beberapa kolom tahun tidak ada di data peramalan.'')
             else plot env (PxLine forecast_data ''Scenario'' years
                              ''Peramalan Pendapatan (2024-2031)'')) s"

definition forecast_section :: "'fig env \<Rightarrow> 'fig stmt" where
  "forecast_section env =
     try_except (forecast_body env)
       (\<lambda>e. emit (Error (''Error saat membuat visualisasi peramalan pendapatan: '' @ str_exn e)))"

text \<open>\<^verbatim>\<open>[col for col in growth_data.columns if 'Growth' in col]\<close>.\<close>

definition growth_cols :: "table \<Rightarrow> string list" where
  "growth_cols t = filter (\<lambda>col. str_in ''Growth'' col) (columns t)"

definition growth_body :: "'fig env \<Rightarrow> 'fig stmt" where
  "growth_body env s =
     (if growth_cols (growth_data (tabs s)) = []
      then emit (Error ''Error: Tidak ada kolom pertumbuhan yang ditemukan di growth_data.'')
      else eval (melt (lib_text env) (growth_data (tabs s)) ''Scenario''
                   (Some (growth_cols (growth_data (tabs s)))) ''variable'' ''value'')
             (\<lambda>long. plot env (PxBox long ''Scenario'' ''value''
                                 ''Distribusi Tingkat Pertumbuhan per Skenario''))) s"

definition growth_section :: "'fig env \<Rightarrow> 'fig stmt" where
  "growth_section env =
     try_except (growth_body env)
       (\<lambda>e. emit (Error (''Error saat membuat visualisasi analisis pertumbuhan: '' @ str_exn e)))"

definition forecasting :: "'fig env \<Rightarrow> 'fig stmt" where
  "forecasting env =
     block [emit (Title ''Peramalan Keuangan''),
            emit (Subheader ''Peramalan Pendapatan per Skenario''),
            forecast_section env,
            emit (Subheader ''Analisis Tingkat Pertumbuhan''),
            growth_section env]"

section \<open>The script\<close>

definition page_names :: "string list" where
  "page_names =
     [''Overview'', ''Financial Analysis'', ''Risk Analysis'', ''Portfolio Optimization'',
      ''Forecasting'']"

text \<open>The \<^verbatim>\<open>if\<close>/\<^verbatim>\<open>elif\<close> chain over the chosen page; it has no \<^verbatim>\<open>else\<close>.\<close>

definition render_page :: "'fig env \<Rightarrow> string option \<Rightarrow> 'fig stmt" where
  "render_page env page =
     (if page = Some ''Overview'' then overview env
      else if page = Some ''Financial Analysis'' then financial_analysis env
      else if page = Some ''Risk Analysis'' then risk_analysis env
      else if page = Some ''Portfolio Optimization'' then portfolio_optimization env
      else if page = Some ''Forecasting'' then forecasting env
      else block [])"

definition footer :: "'fig stmt" where
  "footer =
     block [emit (Markdown ''---''),
            emit (Markdown ''Xerpihan Financial Analysis Dashboard | Dibuat dengan Streamlit'')]"

text \<open>
  How a run ends: stopped by \<^verbatim>\<open>st.stop()\<close>, finished with the footer, or left by an
  exception that nothing caught. \<open>Unusable\<close> stands for a loader result whose first
  component is a table while another one is \<^verbatim>\<open>None\<close>: it would pass the check of
  \<^verbatim>\<open>data[0]\<close> and fail at the first use of the absent table.
\<close>

datatype 'fig outcome =
    Stopped "'fig event list"
  | Finished "'fig event list" table_set
  | Aborted exn "'fig event list"
  | Unusable

definition sidebar :: "'fig event list" where
  "sidebar = [SidebarTitle ''Navigasi'', Radio ''Pilih halaman'' page_names]"

text \<open>
  The whole script: the sidebar, the load, the check \<^verbatim>\<open>data[0] is None\<close>, the
  chosen page and the footer. The page configuration (\<^verbatim>\<open>st.set_page_config\<close>) and
  the layout in columns put no element of their own on the page and are left out.
\<close>

definition script :: "'fig env \<Rightarrow> 'fig outcome" where
  "script env =
     (let page = chosen env ''Pilih halaman'' page_names;
          (shown, data) = load_data env
      in if fst data = None then Stopped (sidebar @ shown)
         else case data of
           (Some c, Some g, Some m, Some f, Some fm, Some fc) \<Rightarrow>
             (case block [render_page env page, footer]
                     \<lparr>tabs = \<lparr>combined_data = c, growth_data = g, metrics = m,
                              final_summary = f, financial_metrics = fm,
                              forecast_combined = fc\<rparr>,
                      out = sidebar @ shown\<rparr> of
                (None, s) \<Rightarrow> Finished (out s) (tabs s)
              | (Some e, s) \<Rightarrow> Aborted e (out s))
         | _ \<Rightarrow> Unusable)"

section \<open>Notions used in the properties\<close>

text \<open>A file whose read raises, and the first such file in the order of the reads.\<close>

definition unreadable :: "csv_file \<Rightarrow> bool" where
  "unreadable f = (case f of Content t \<Rightarrow> False | _ \<Rightarrow> True)"

definition first_failing :: "(string \<Rightarrow> csv_file) \<Rightarrow> string option" where
  "first_failing fs = find (\<lambda>p. unreadable (fs p)) csv_paths"

text \<open>The exception that the read of an unreadable file raises.\<close>

definition read_failure :: "string \<Rightarrow> csv_file \<Rightarrow> exn" where
  "read_failure p f =
     (case f of
        Missing \<Rightarrow> FileNotFoundError p
      | Unparseable msg \<Rightarrow> OtherError msg
      | Content t \<Rightarrow> OtherError [])"

text \<open>The text of the loader's error for the file \<open>p\<close> in the condition \<open>f\<close>.\<close>

definition load_error :: "string \<Rightarrow> csv_file \<Rightarrow> string" where
  "load_error p f =
     (case f of
        Missing \<Rightarrow> ''Error: File '' @ quote p @
          '' tidak ditemukan. Pastikan semua file CSV ada di direktori yang benar.''
      | Unparseable msg \<Rightarrow> ''Error saat memuat data: '' @ msg @
          ''. Periksa format file CSV dan pastikan kolom yang diharapkan ada.''
      | Content t \<Rightarrow> [])"

text \<open>Reading a list of paths in order, up to the first exception.\<close>

fun read_all :: "(string \<Rightarrow> csv_file) \<Rightarrow> string list \<Rightarrow> exn + table list" where
  "read_all fs [] = Inr []"
| "read_all fs (p # ps) =
     (case read_csv fs p of
        Inl e \<Rightarrow> Inl e
      | Inr t \<Rightarrow> (case read_all fs ps of Inl e \<Rightarrow> Inl e | Inr ts \<Rightarrow> Inr (t # ts)))"

fun is_metric :: "'fig event \<Rightarrow> bool" where
  "is_metric (Metric label v) = True"
| "is_metric ev = False"


text \<open>The text of the tile for a column that holds no text.\<close>

definition tile :: "'fig env \<Rightarrow> series \<Rightarrow> string" where
  "tile env col = fmt2f (mean64 (float_mean env) (floats col)) @ ''%''"

text \<open>
  What the block of the three tiles does to the table \<open>metrics\<close> and what it shows:
  the conversions up to the first absent column, and then either the error for that
  column or the warning and the three tiles.
\<close>

fun convert_all :: "(string \<Rightarrow> float) \<Rightarrow> string list \<Rightarrow> table \<Rightarrow> table" where
  "convert_all p [] m = m"
| "convert_all p (c # cs) m =
     (case map_of m c of
        None \<Rightarrow> m
      | Some col \<Rightarrow> convert_all p cs (setitem m c (to_numeric p col)))"

definition kpi_error :: "string \<Rightarrow> 'fig event" where
  "kpi_error c = Error (''Error saat mengkonversi data numerik: '' @ quote c)"

definition kpi_shown :: "'fig env \<Rightarrow> table \<Rightarrow> 'fig event list" where
  "kpi_shown env m =
     (case map_of m ''Revenue_CAGR'' of None \<Rightarrow> [kpi_error ''Revenue_CAGR''] | Some col1 \<Rightarrow>
      case map_of m ''Avg_EBITDA_Margin'' of None \<Rightarrow> [kpi_error ''Avg_EBITDA_Margin''] | Some col2 \<Rightarrow>
      case map_of m ''Cost_to_Revenue'' of None \<Rightarrow> [kpi_error ''Cost_to_Revenue''] | Some col3 \<Rightarrow>
        (if NaN \<in> set (to_numeric (to_num env) col1) \<or>
            NaN \<in> set (to_numeric (to_num env) col2) \<or>
            NaN \<in> set (to_numeric (to_num env) col3)
         then [Warning ''Beberapa data numerik tidak valid dan diubah menjadi NaN. Periksa data Anda.'']
         else []) @
        [Metric ''Rata-rata Revenue CAGR'' (tile env (to_numeric (to_num env) col1)),
         Metric ''Rata-rata EBITDA Margin'' (tile env (to_numeric (to_num env) col2)),
         Metric ''Rata-rata Efisiensi Biaya'' (tile env (to_numeric (to_num env) col3))])"

text \<open>
  What a statement shows when it runs on the tables \<open>ts\<close> with nothing on the page
  yet.
\<close>

definition events_of :: "'fig stmt \<Rightarrow> table_set \<Rightarrow> 'fig event list" where
  "events_of c ts = out (snd (c \<lparr>tabs = ts, out = []\<rparr>))"

text \<open>
  A statement that always completes, replaces \<open>metrics\<close> by \<open>F metrics\<close>, changes no
  other table, and adds to the page what it shows on its own from the tables.
\<close>

definition acts :: "'fig stmt \<Rightarrow> (table \<Rightarrow> table) \<Rightarrow> bool" where
  "acts c F =
     (\<forall>s. c s = (None, s\<lparr>tabs := (tabs s)\<lparr>metrics := F (metrics (tabs s))\<rparr>,
                        out := out s @ events_of c (tabs s)\<rparr>))"

text \<open>What rendering a page does to \<open>metrics\<close>.\<close>

definition page_effect :: "'fig env \<Rightarrow> string option \<Rightarrow> table \<Rightarrow> table" where
  "page_effect env page =
     (if page = Some ''Overview'' then convert_all (to_num env) kpi_columns else id)"


section \<open>Example inputs\<close>

definition demo_combined :: table where
  "demo_combined =
     [(''Scenario'', [Str ''Optimistic'', Str ''Moderate'', Str ''Optimistic'']),
      (''Category'', [Str ''Pendapatan'', Str ''Pendapatan'', Str ''Biaya'']),
      (''2024'', [Num 100, Num 90, Num 40]), (''2025'', [Num 110, Num 95, Num 42]),
      (''2026'', [Num 120, Num 99, Num 44]), (''2027'', [Num 130, Num 104, Num 46]),
      (''2028'', [Num 140, Num 109, Num 48]), (''2029'', [Num 150, Num 114, Num 50]),
      (''2030'', [Num 160, Num 119, Num 52]), (''2031'', [Num 170, Num 124, Num 54])]"

definition demo_growth :: table where
  "demo_growth =
     [(''Scenario'', [Str ''Optimistic'', Str ''Moderate'']),
      (''Revenue_Growth'', [Num 0.1, Num 0.05]),
      (''EBITDA_Growth'', [Num 0.2, NaN]),
      (''Notes'', [Str ''a'', Str ''b''])]"

definition demo_metrics :: table where
  "demo_metrics =
     [(''Scenario'', [Str ''Optimistic'', Str ''Moderate'']),
      (''Revenue_CAGR'', [Num 12.5, Num 8]),
      (''Avg_EBITDA_Margin'', [Str ''21.5'', Str ''unknown'']),
      (''Cost_to_Revenue'', [NaN, NaN]),
      (''Revenue_Volatility'', [Num 0.3, Num 0.2]),
      (''Margin_Volatility'', [Num 0.1, Num 0.1])]"

definition demo_summary :: table where
  "demo_summary =
     [(''Scenario'', [Str ''Optimistic'', Str ''Moderate'']),
      (''Revenue_CAGR'', [Num 12.5, Num 8]),
      (''EBITDA_CAGR'', [Num 10, Num 7])]"

definition demo_financial :: table where
  "demo_financial =
     [(''Scenario'', [Str ''Optimistic'', Str ''Moderate'']),
      (''Revenue_CAGR'', [Num 12.5, Num 8]),
      (''Avg_EBITDA_Margin'', [Num 21.5, Num 19]),
      (''Avg_Net_Margin'', [Num 9, Num 7])]"

definition demo_tables :: table_set where
  "demo_tables =
     \<lparr>combined_data = demo_combined, growth_data = demo_growth, metrics = demo_metrics,
      final_summary = demo_summary, financial_metrics = demo_financial,
      forecast_combined = demo_combined\<rparr>"

definition demo_files :: "string \<Rightarrow> csv_file" where
  "demo_files p =
     (if p = ''xerpihan_combined_data.csv'' then Content demo_combined
      else if p = ''xerpihan_combined_data_with_growth.csv'' then Content demo_growth
      else if p = ''xerpihan_comprehensive_metrics.csv'' then Content demo_metrics
      else if p = ''xerpihan_final_summary.csv'' then Content demo_summary
      else if p = ''xerpihan_financial_metrics.csv'' then Content demo_financial
      else if p = ''xerpihan_forecast_combined.csv'' then Content demo_combined
      else Missing)"

text \<open>
  A parser that knows two texts, \<^verbatim>\<open>21.5\<close> and, as \<^verbatim>\<open>pd.to_numeric\<close> does,
  \<^verbatim>\<open>inf\<close>; a library mean that returns the infinity of a column that holds one; the
  texts of the library's exceptions; and a plotting library that returns the call as
  its figure.
\<close>

definition demo_parse :: "string \<Rightarrow> float" where
  "demo_parse s = (if s = ''21.5'' then Fin 21.5 else if s = ''inf'' then PosInf else NotNum)"

definition demo_mean :: "float list \<Rightarrow> float" where
  "demo_mean fs =
     (if PosInf \<in> set fs \<and> NegInf \<notin> set fs then PosInf
      else if NegInf \<in> set fs \<and> PosInf \<notin> set fs then NegInf
      else NotNum)"

definition demo_text :: "lib_error \<Rightarrow> string" where
  "demo_text e =
     (case e of
        MeanOfText \<Rightarrow> ''Could not convert string to numeric''
      | NotInIndex cs \<Rightarrow> ''columns not in index''
      | MeltAbsent cs \<Rightarrow>
          ''The following id_vars or value_vars are not present in the DataFrame'')"

definition demo_env :: "plot_call env" where
  "demo_env =
     \<lparr>files = demo_files, px = Inr, to_num = demo_parse, float_mean = demo_mean,
      lib_text = demo_text, choice = (\<lambda>label. 0)\<rparr>"

definition start :: "table_set \<Rightarrow> plot_call state" where
  "start ts = \<lparr>tabs = ts, out = []\<rparr>"

section \<open>Properties of the loader\<close>

lemma read_six_read_all:
  "read_six fs = (case read_all fs csv_paths of Inl e \<Rightarrow> Inl e
                  | Inr ts \<Rightarrow> Inr (ts ! 0, ts ! 1, ts ! 2, ts ! 3, ts ! 4, ts ! 5))"
  by (simp add: read_six_def csv_paths_def split: sum.splits)

lemma read_all_failure:
  "find (\<lambda>p. unreadable (fs p)) ps = Some p \<Longrightarrow> read_all fs ps = Inl (read_failure p (fs p))"
proof (induction ps)
  case Nil
  then show ?case by simp
next
  case (Cons q ps)
  show ?case
  proof (cases "unreadable (fs q)")
    case True
    with Cons.prems have "p = q" by simp
    with True show ?thesis
      by (cases "fs q") (simp_all add: read_csv_def unreadable_def read_failure_def)
  next
    case False
    with Cons show ?thesis
      by (cases "fs q") (simp_all add: read_csv_def unreadable_def)
  qed
qed

lemma read_all_success:
  "find (\<lambda>p. unreadable (fs p)) ps = None \<Longrightarrow> \<exists>ts. read_all fs ps = Inr ts"
proof (induction ps)
  case Nil
  then show ?case by simp
next
  case (Cons q ps)
  then show ?case
    by (cases "fs q") (auto simp: read_csv_def unreadable_def split: if_splits)
qed

lemma first_failing_unreadable:
  "first_failing fs = Some p \<Longrightarrow> unreadable (fs p) \<and> p \<in> set csv_paths"
  unfolding first_failing_def by (auto simp: find_Some_iff)

lemma load_data_failure:
  assumes "first_failing (files env) = Some p"
  shows "load_data env = ([Error (load_error p (files env p))], six_none)"
proof -
  from assms have "read_six (files env) = Inl (read_failure p (files env p))"
    by (simp add: read_six_read_all first_failing_def read_all_failure)
  with first_failing_unreadable[OF assms] show ?thesis
    by (cases "files env p")
       (simp_all add: load_data_def load_error_def unreadable_def read_failure_def)
qed

lemma load_data_success:
  assumes "first_failing (files env) = None"
  shows "\<exists>c g m f fm fc.
           load_data env = ([], (Some c, Some g, Some m, Some f, Some fm, Some fc))"
proof -
  from assms obtain ts where "read_all (files env) csv_paths = Inr ts"
    using read_all_success by (auto simp: first_failing_def)
  then show ?thesis by (simp add: load_data_def read_six_read_all)
qed

lemma script_stops:
  assumes "load_data env = (shown, six_none)"
  shows "script env = Stopped (sidebar @ shown)"
  using assms by (simp add: script_def six_none_def)

lemma starts_with_iff: "starts_with n t = (\<exists>post. t = n @ post)"
  by (induction n t rule: starts_with.induct) auto

lemma str_in_iff: "str_in n t = (\<exists>pre post. t = pre @ n @ post)"
proof (induction t)
  case Nil
  then show ?case by auto
next
  case (Cons b t)
  show ?case
  proof
    assume "str_in n (b # t)"
    then consider "starts_with n (b # t)" | "str_in n t" by auto
    then show "\<exists>pre post. b # t = pre @ n @ post"
    proof cases
      case 1
      then obtain post where "b # t = n @ post" by (auto simp: starts_with_iff)
      then have "b # t = [] @ n @ post" by simp
      then show ?thesis by blast
    next
      case 2
      with Cons obtain pre post where "t = pre @ n @ post" by auto
      then have "b # t = (b # pre) @ n @ post" by simp
      then show ?thesis by blast
    qed
  next
    assume "\<exists>pre post. b # t = pre @ n @ post"
    then obtain pre post where e: "b # t = pre @ n @ post" by auto
    show "str_in n (b # t)"
    proof (cases pre)
      case Nil
      with e have "starts_with n (b # t)" by (auto simp: starts_with_iff)
      then show ?thesis by simp
    next
      case (Cons a pre')
      with e have "t = pre' @ n @ post" by simp
      with Cons.IH have "str_in n t" by auto
      then show ?thesis by simp
    qed
  qed
qed

lemma str_in_middle: "str_in n (a @ ([q] @ n @ [q']) @ b)"
proof -
  have "a @ ([q] @ n @ [q']) @ b = (a @ [q]) @ n @ ([q'] @ b)" by simp
  then show ?thesis unfolding str_in_iff by blast
qed

text \<open>
  Claim C1, as amended. Whenever at least one of the six reads fails, \<open>load_data\<close>
  shows exactly one error, the one of the first read that fails, and returns six
  \<^verbatim>\<open>None\<close>; the script stops, so that the page holds the sidebar and that error only.
  When the first failing file is missing, the error names it. When its read fails for
  another reason, the error is the exception's own text between two fixed phrases
  (\<open>load_error\<close>), which names the file only if the exception's text does.
\<close>

theorem load_data_reports_first_failure:
  assumes "\<exists>q \<in> set csv_paths. unreadable (files env q)"
  shows "\<exists>p. first_failing (files env) = Some p \<and>
             load_data env = ([Error (load_error p (files env p))], six_none) \<and>
             script env = Stopped (sidebar @ [Error (load_error p (files env p))]) \<and>
             (files env p = Missing \<longrightarrow> str_in p (load_error p (files env p)))"
proof -
  from assms obtain p where p: "first_failing (files env) = Some p"
    unfolding first_failing_def
    by (cases "find (\<lambda>p. unreadable (files env p)) csv_paths") (auto simp: find_None_iff)
  have "str_in p (load_error p Missing)"
    unfolding load_error_def quote_def csv_file.case by (rule str_in_middle)
  then have "files env p = Missing \<longrightarrow> str_in p (load_error p (files env p))"
    by simp
  with load_data_failure[OF p] script_stops p show ?thesis by blast
qed

theorem load_data_reports_first_failure_witness:
  "unreadable (files (demo_env\<lparr>files := demo_files(''xerpihan_final_summary.csv'' := Missing)\<rparr>)
     ''xerpihan_final_summary.csv'') \<and>
   script (demo_env\<lparr>files := demo_files(''xerpihan_final_summary.csv'' := Missing)\<rparr>) =
     Stopped [SidebarTitle ''Navigasi'', Radio ''Pilih halaman'' page_names,
              Error (''Error: File '' @ quote ''xerpihan_final_summary.csv'' @
                '' tidak ditemukan. Pastikan semua file CSV ada di direktori yang benar.'')]"
proof -
  let ?E = "demo_env\<lparr>files := demo_files(''xerpihan_final_summary.csv'' := Missing)\<rparr>"
  have u: "unreadable (files ?E ''xerpihan_final_summary.csv'')"
    by (simp add: unreadable_def)
  then have h: "\<exists>q \<in> set csv_paths. unreadable (files ?E q)"
    by (simp add: csv_paths_def)
  have f: "first_failing (files ?E) = Some ''xerpihan_final_summary.csv''"
    by (simp add: first_failing_def csv_paths_def unreadable_def demo_env_def demo_files_def)
  from load_data_reports_first_failure[OF h] f u show ?thesis
    by (simp add: load_error_def sidebar_def)
qed

text \<open>
  Claim C1 as stated fails for a file that cannot be parsed: the summary file raises
  with the text \<^verbatim>\<open>No columns to parse from file\<close>, and the error that
  \<open>load_data\<close> shows does not contain the file's name.
\<close>

theorem load_data_unparseable_counterexample:
  "load_data (demo_env\<lparr>files := demo_files(''xerpihan_final_summary.csv'' :=
       Unparseable ''No columns to parse from file'')\<rparr>) =
     ([Error ''Error saat memuat data: No columns to parse from file. Periksa format file CSV dan pastikan kolom yang diharapkan ada.''],
      None, None, None, None, None, None) \<and>
   \<not> str_in ''xerpihan_final_summary.csv''
     ''Error saat memuat data: No columns to parse from file. Periksa format file CSV dan pastikan kolom yang diharapkan ada.''"
  by (simp add: load_data_def read_six_def read_csv_def demo_env_def demo_files_def six_none_def)

text \<open>
  Claim C9. The six components that \<open>load_data\<close> returns are either six tables or
  six \<^verbatim>\<open>None\<close>, never a mixture. Hence the first component is \<^verbatim>\<open>None\<close> exactly
  when all are, and the script, which checks the first component only, never goes on
  with an absent table.
\<close>

theorem load_data_all_or_nothing:
  "((\<exists>c g m f fm fc. snd (load_data env) = (Some c, Some g, Some m, Some f, Some fm, Some fc))
     \<or> snd (load_data env) = six_none) \<and>
   ((fst (snd (load_data env)) = None) = (snd (load_data env) = six_none)) \<and>
   script env \<noteq> Unusable"
proof (cases "first_failing (files env)")
  case None
  from load_data_success[OF this] show ?thesis
    by (auto simp: six_none_def script_def split: prod.splits option.splits)
next
  case (Some p)
  from load_data_failure[OF this] script_stops[OF load_data_failure[OF this]] show ?thesis
    by (simp add: six_none_def)
qed

theorem load_data_all_or_nothing_witness:
  "snd (load_data demo_env) =
     (Some demo_combined, Some demo_growth, Some demo_metrics, Some demo_summary,
      Some demo_financial, Some demo_combined) \<and>
   fst (snd (load_data demo_env)) \<noteq> None \<and> snd (load_data demo_env) \<noteq> six_none \<and>
   script demo_env \<noteq> Unusable"
proof -
  have "snd (load_data demo_env) =
     (Some demo_combined, Some demo_growth, Some demo_metrics, Some demo_summary,
      Some demo_financial, Some demo_combined)"
    by (simp add: load_data_def read_six_def read_csv_def demo_env_def demo_files_def)
  with load_data_all_or_nothing[of demo_env] show ?thesis by simp
qed

section \<open>Properties of the tiles\<close>

lemma map_of_setitem: "map_of (setitem t c v) = (map_of t)(c \<mapsto> v)"
  by (induction t c v rule: setitem.induct) (auto simp: fun_eq_iff)

lemma columns_setitem:
  "c \<in> set (columns t) \<Longrightarrow> columns (setitem t c v) = columns t"
  by (induction t c v rule: setitem.induct) (auto simp: columns_def)

lemma setitem_same: "map_of t c = Some v \<Longrightarrow> setitem t c v = t"
  by (induction t c v rule: setitem.induct) (auto split: if_splits)

lemma in_columns_iff: "(c \<in> set (columns t)) = (map_of t c \<noteq> None)"
  by (simp add: columns_def map_of_eq_None_iff)

lemma getitem_Some: "map_of t c = Some col \<Longrightarrow> getitem t c = Inr col"
  by (simp add: getitem_def)

lemma getitem_None: "map_of t c = None \<Longrightarrow> getitem t c = Inl (KeyError (quote c))"
  by (simp add: getitem_def)

lemma no_text_to_numeric: "\<not> list_ex is_text (to_numeric p col)"
proof (induction col)
  case Nil
  then show ?case by (simp add: to_numeric_def)
next
  case (Cons c col)
  then show ?case by (cases c) (auto simp: to_numeric_def)
qed


lemma to_numeric_idem: "to_numeric p (to_numeric p col) = to_numeric p col"
proof -
  have "coerce p (coerce p c) = coerce p c" for c
    by (cases c) auto
  then show ?thesis by (simp add: to_numeric_def)
qed

lemma to_numeric_no_text: "\<not> list_ex is_text col \<Longrightarrow> to_numeric p col = col"
proof (induction col)
  case Nil
  then show ?case by (simp add: to_numeric_def)
next
  case (Cons c col)
  then show ?case by (cases c) (auto simp: to_numeric_def)
qed

lemma convert_column_present:
  "map_of (metrics (tabs s)) c = Some col \<Longrightarrow>
   convert_column env c s =
     (None, s\<lparr>tabs := (tabs s)\<lparr>metrics := setitem (metrics (tabs s)) c (to_numeric (to_num env) col)\<rparr>\<rparr>)"
  by (simp add: convert_column_def eval_def getitem_def)

lemma convert_column_absent:
  "map_of (metrics (tabs s)) c = None \<Longrightarrow> convert_column env c s = (Some (KeyError (quote c)), s)"
  by (simp add: convert_column_def eval_def getitem_def)

lemma metric_tile_numeric:
  "map_of (metrics (tabs s)) c = Some col \<Longrightarrow> \<not> list_ex is_text col \<Longrightarrow>
   metric_tile env label c s =
     (None, s\<lparr>out := out s @ [Metric label (tile env col)]\<rparr>)"
  by (simp add: metric_tile_def eval_def getitem_def series_mean_def emit_def tile_def)



lemma kpi_body_present:
  assumes c1: "map_of (metrics (tabs s)) ''Revenue_CAGR'' = Some col1"
    and c2: "map_of (metrics (tabs s)) ''Avg_EBITDA_Margin'' = Some col2"
    and c3: "map_of (metrics (tabs s)) ''Cost_to_Revenue'' = Some col3"
  shows "kpi_body env s =
     (None, s\<lparr>tabs := (tabs s)\<lparr>metrics :=
                 setitem (setitem (setitem (metrics (tabs s))
                   ''Revenue_CAGR'' (to_numeric (to_num env) col1))
                   ''Avg_EBITDA_Margin'' (to_numeric (to_num env) col2))
                   ''Cost_to_Revenue'' (to_numeric (to_num env) col3)\<rparr>,
              out := out s @
                (if NaN \<in> set (to_numeric (to_num env) col1) \<or>
                    NaN \<in> set (to_numeric (to_num env) col2) \<or>
                    NaN \<in> set (to_numeric (to_num env) col3)
                 then [Warning ''Beberapa data numerik tidak valid dan diubah menjadi NaN. Periksa data Anda.'']
                 else []) @
                [Metric ''Rata-rata Revenue CAGR'' (tile env (to_numeric (to_num env) col1)),
                 Metric ''Rata-rata EBITDA Margin'' (tile env (to_numeric (to_num env) col2)),
                 Metric ''Rata-rata Efisiensi Biaya'' (tile env (to_numeric (to_num env) col3))]\<rparr>)"
proof -
  let ?p = "to_num env"
  let ?m = "metrics (tabs s)"
  let ?m1 = "setitem ?m ''Revenue_CAGR'' (to_numeric ?p col1)"
  let ?m2 = "setitem ?m1 ''Avg_EBITDA_Margin'' (to_numeric ?p col2)"
  let ?m3 = "setitem ?m2 ''Cost_to_Revenue'' (to_numeric ?p col3)"
  let ?s1 = "s\<lparr>tabs := (tabs s)\<lparr>metrics := ?m1\<rparr>\<rparr>"
  let ?s2 = "s\<lparr>tabs := (tabs s)\<lparr>metrics := ?m2\<rparr>\<rparr>"
  let ?s3 = "s\<lparr>tabs := (tabs s)\<lparr>metrics := ?m3\<rparr>\<rparr>"
  have s1: "convert_column env ''Revenue_CAGR'' s = (None, ?s1)"
    using c1 by (rule convert_column_present)
  have "map_of (metrics (tabs ?s1)) ''Avg_EBITDA_Margin'' = Some col2"
    using c2 by (simp add: map_of_setitem)
  from convert_column_present[OF this, of env]
  have s2: "convert_column env ''Avg_EBITDA_Margin'' ?s1 = (None, ?s2)" by simp
  have "map_of (metrics (tabs ?s2)) ''Cost_to_Revenue'' = Some col3"
    using c3 by (simp add: map_of_setitem)
  from convert_column_present[OF this, of env]
  have s3: "convert_column env ''Cost_to_Revenue'' ?s2 = (None, ?s3)" by simp
  have g1: "map_of (metrics (tabs ?s3)) ''Revenue_CAGR'' = Some (to_numeric ?p col1)"
    and g2: "map_of (metrics (tabs ?s3)) ''Avg_EBITDA_Margin'' = Some (to_numeric ?p col2)"
    and g3: "map_of (metrics (tabs ?s3)) ''Cost_to_Revenue'' = Some (to_numeric ?p col3)"
    by (simp_all add: map_of_setitem)
  define w :: "'a event list" where "w =
     (if NaN \<in> set (to_numeric ?p col1) \<or> NaN \<in> set (to_numeric ?p col2) \<or>
         NaN \<in> set (to_numeric ?p col3)
      then [Warning ''Beberapa data numerik tidak valid dan diubah menjadi NaN. Periksa data Anda.'']
      else [])"
  define t1 where "t1 = tile env (to_numeric ?p col1)"
  define t2 where "t2 = tile env (to_numeric ?p col2)"
  define t3 where "t3 = tile env (to_numeric ?p col3)"
  let ?s4 = "?s3\<lparr>out := out s @ w\<rparr>"
  have "any_null (lib_text env) (metrics (tabs ?s3)) kpi_columns =
          Inr (NaN \<in> set (to_numeric ?p col1) \<or> NaN \<in> set (to_numeric ?p col2) \<or>
               NaN \<in> set (to_numeric ?p col3))"
    using g1 g2 g3 unfolding any_null_def kpi_columns_def by (simp add: in_columns_iff)
  then have s4: "null_warning env ?s3 = (None, ?s4)"
    by (simp add: null_warning_def eval_def emit_def w_def)
  have n: "\<not> list_ex is_text (to_numeric ?p col1)" "\<not> list_ex is_text (to_numeric ?p col2)"
    "\<not> list_ex is_text (to_numeric ?p col3)"
    by (rule no_text_to_numeric)+
  let ?s5 = "?s3\<lparr>out := out s @ w @ [Metric ''Rata-rata Revenue CAGR'' t1]\<rparr>"
  have "map_of (metrics (tabs ?s4)) ''Revenue_CAGR'' = Some (to_numeric ?p col1)"
    using g1 by simp
  from metric_tile_numeric[OF this n(1), of env "''Rata-rata Revenue CAGR''"]
  have s5: "metric_tile env ''Rata-rata Revenue CAGR'' ''Revenue_CAGR'' ?s4 = (None, ?s5)"
    by (simp add: t1_def)
  let ?s6 = "?s3\<lparr>out := out s @ w @ [Metric ''Rata-rata Revenue CAGR'' t1,
                                          Metric ''Rata-rata EBITDA Margin'' t2]\<rparr>"
  have "map_of (metrics (tabs ?s5)) ''Avg_EBITDA_Margin'' = Some (to_numeric ?p col2)"
    using g2 by simp
  from metric_tile_numeric[OF this n(2), of env "''Rata-rata EBITDA Margin''"]
  have s6: "metric_tile env ''Rata-rata EBITDA Margin'' ''Avg_EBITDA_Margin'' ?s5 = (None, ?s6)"
    by (simp add: t2_def)
  let ?s7 = "?s3\<lparr>out := out s @ w @ [Metric ''Rata-rata Revenue CAGR'' t1,
                                          Metric ''Rata-rata EBITDA Margin'' t2,
                                          Metric ''Rata-rata Efisiensi Biaya'' t3]\<rparr>"
  have "map_of (metrics (tabs ?s6)) ''Cost_to_Revenue'' = Some (to_numeric ?p col3)"
    using g3 by simp
  from metric_tile_numeric[OF this n(3), of env "''Rata-rata Efisiensi Biaya''"]
  have s7: "metric_tile env ''Rata-rata Efisiensi Biaya'' ''Cost_to_Revenue'' ?s6 = (None, ?s7)"
    by (simp add: t3_def)
  have "kpi_body env s = (None, ?s7)"
    unfolding kpi_body_def by (simp add: s1 s2 s3 s4 s5 s6 s7)
  then show ?thesis
    unfolding w_def t1_def t2_def t3_def by simp
qed


lemma kpi_section_present:
  assumes "map_of (metrics (tabs s)) ''Revenue_CAGR'' = Some col1"
    and "map_of (metrics (tabs s)) ''Avg_EBITDA_Margin'' = Some col2"
    and "map_of (metrics (tabs s)) ''Cost_to_Revenue'' = Some col3"
  shows "kpi_section env s =
     (None, s\<lparr>tabs := (tabs s)\<lparr>metrics := convert_all (to_num env) kpi_columns (metrics (tabs s))\<rparr>,
              out := out s @ kpi_shown env (metrics (tabs s))\<rparr>)"
  using assms
  by (simp add: kpi_section_def try_except_def kpi_body_present[OF assms] kpi_shown_def
      kpi_columns_def map_of_setitem)

lemma kpi_section_absent1:
  assumes "map_of (metrics (tabs s)) ''Revenue_CAGR'' = None"
  shows "kpi_section env s =
     (None, s\<lparr>tabs := (tabs s)\<lparr>metrics := convert_all (to_num env) kpi_columns (metrics (tabs s))\<rparr>,
              out := out s @ kpi_shown env (metrics (tabs s))\<rparr>)"
  using assms
  by (simp add: kpi_section_def try_except_def kpi_body_def convert_column_absent kpi_shown_def
      kpi_columns_def kpi_error_def emit_def)

lemma kpi_section_absent2:
  assumes "map_of (metrics (tabs s)) ''Revenue_CAGR'' = Some col1"
    and "map_of (metrics (tabs s)) ''Avg_EBITDA_Margin'' = None"
  shows "kpi_section env s =
     (None, s\<lparr>tabs := (tabs s)\<lparr>metrics := convert_all (to_num env) kpi_columns (metrics (tabs s))\<rparr>,
              out := out s @ kpi_shown env (metrics (tabs s))\<rparr>)"
proof -
  let ?s1 = "s\<lparr>tabs := (tabs s)\<lparr>metrics := setitem (metrics (tabs s)) ''Revenue_CAGR''
                 (to_numeric (to_num env) col1)\<rparr>\<rparr>"
  have s1: "convert_column env ''Revenue_CAGR'' s = (None, ?s1)"
    using assms(1) by (rule convert_column_present)
  have "map_of (metrics (tabs ?s1)) ''Avg_EBITDA_Margin'' = None"
    using assms(2) by (simp add: map_of_setitem)
  from convert_column_absent[OF this, of env]
  have s2: "convert_column env ''Avg_EBITDA_Margin'' ?s1 = (Some (KeyError (quote ''Avg_EBITDA_Margin'')), ?s1)" .
  show ?thesis
    using assms
    by (simp add: kpi_section_def try_except_def kpi_body_def s1 s2 kpi_shown_def
        kpi_columns_def kpi_error_def emit_def map_of_setitem)
qed

lemma kpi_section_absent3:
  assumes "map_of (metrics (tabs s)) ''Revenue_CAGR'' = Some col1"
    and "map_of (metrics (tabs s)) ''Avg_EBITDA_Margin'' = Some col2"
    and "map_of (metrics (tabs s)) ''Cost_to_Revenue'' = None"
  shows "kpi_section env s =
     (None, s\<lparr>tabs := (tabs s)\<lparr>metrics := convert_all (to_num env) kpi_columns (metrics (tabs s))\<rparr>,
              out := out s @ kpi_shown env (metrics (tabs s))\<rparr>)"
proof -
  let ?m1 = "setitem (metrics (tabs s)) ''Revenue_CAGR'' (to_numeric (to_num env) col1)"
  let ?s1 = "s\<lparr>tabs := (tabs s)\<lparr>metrics := ?m1\<rparr>\<rparr>"
  let ?s2 = "s\<lparr>tabs := (tabs s)\<lparr>metrics := setitem ?m1 ''Avg_EBITDA_Margin''
                 (to_numeric (to_num env) col2)\<rparr>\<rparr>"
  have s1: "convert_column env ''Revenue_CAGR'' s = (None, ?s1)"
    using assms(1) by (rule convert_column_present)
  have "map_of (metrics (tabs ?s1)) ''Avg_EBITDA_Margin'' = Some col2"
    using assms(2) by (simp add: map_of_setitem)
  from convert_column_present[OF this, of env]
  have s2: "convert_column env ''Avg_EBITDA_Margin'' ?s1 = (None, ?s2)" by simp
  have "map_of (metrics (tabs ?s2)) ''Cost_to_Revenue'' = None"
    using assms(3) by (simp add: map_of_setitem)
  from convert_column_absent[OF this, of env]
  have s3: "convert_column env ''Cost_to_Revenue'' ?s2 = (Some (KeyError (quote ''Cost_to_Revenue'')), ?s2)" .
  show ?thesis
    using assms
    by (simp add: kpi_section_def try_except_def kpi_body_def s1 s2 s3 kpi_shown_def
        kpi_columns_def kpi_error_def emit_def map_of_setitem)
qed

lemma kpi_section_eq:
  "kpi_section env s =
     (None, s\<lparr>tabs := (tabs s)\<lparr>metrics := convert_all (to_num env) kpi_columns (metrics (tabs s))\<rparr>,
              out := out s @ kpi_shown env (metrics (tabs s))\<rparr>)"
proof (cases "map_of (metrics (tabs s)) ''Revenue_CAGR''")
  case None
  then show ?thesis by (rule kpi_section_absent1)
next
  case c1: (Some col1)
  show ?thesis
  proof (cases "map_of (metrics (tabs s)) ''Avg_EBITDA_Margin''")
    case None
    with c1 show ?thesis by (rule kpi_section_absent2)
  next
    case c2: (Some col2)
    show ?thesis
    proof (cases "map_of (metrics (tabs s)) ''Cost_to_Revenue''")
      case None
      with c1 c2 show ?thesis by (rule kpi_section_absent3)
    next
      case (Some col3)
      with c1 c2 show ?thesis by (rule kpi_section_present)
    qed
  qed
qed

lemma events_of_kpi_section:
  "events_of (kpi_section env) ts = kpi_shown env (metrics ts)"
  by (simp add: events_of_def kpi_section_eq)

lemma acts_kpi_section: "acts (kpi_section env) (convert_all (to_num env) kpi_columns)"
  unfolding acts_def by (simp add: kpi_section_eq events_of_kpi_section)

section \<open>Properties of the pages\<close>

lemma actsI:
  assumes "\<And>s. c s = (None, s\<lparr>tabs := (tabs s)\<lparr>metrics := F (metrics (tabs s))\<rparr>,
                             out := out s @ G (tabs s)\<rparr>)"
  shows "acts c F \<and> events_of c = G"
proof -
  have "events_of c ts = G ts" for ts
    by (simp add: events_of_def assms)
  then have "events_of c = G" by (simp add: fun_eq_iff)
  with assms show ?thesis by (simp add: acts_def)
qed

lemma actsD:
  "acts c F \<Longrightarrow> c s = (None, s\<lparr>tabs := (tabs s)\<lparr>metrics := F (metrics (tabs s))\<rparr>,
                              out := out s @ events_of c (tabs s)\<rparr>)"
  by (simp add: acts_def)

lemma acts_idD:
  "acts c id \<Longrightarrow> c s = (None, s\<lparr>out := out s @ events_of c (tabs s)\<rparr>)"
  by (simp add: acts_def)

lemma acts_metrics_chart: "acts (metrics_chart env) id"
  unfolding acts_def events_of_def
  by (auto simp: metrics_chart_def metrics_chart_body_def try_except_def plot_def eval_def
        emit_def split: sum.splits)

lemma acts_growth_chart: "acts (growth_chart env) id"
  unfolding acts_def events_of_def
  by (auto simp: growth_chart_def growth_chart_body_def try_except_def plot_def eval_def
        emit_def split: sum.splits)

lemma acts_custom_section: "acts (custom_section env) id"
  unfolding acts_def events_of_def
  by (auto simp: custom_section_def custom_body_def Let_def try_except_def plot_def eval_def
        emit_def split: sum.splits)

lemma acts_risk_section: "acts (risk_section env) id"
  unfolding acts_def events_of_def
  by (auto simp: risk_section_def risk_body_def Let_def try_except_def plot_def eval_def
        emit_def split: sum.splits)

lemma acts_decomposition_section: "acts (decomposition_section env) id"
  unfolding acts_def events_of_def
  by (auto simp: decomposition_section_def decomposition_body_def try_except_def plot_def
        eval_def emit_def split: sum.splits)

lemma acts_allocation_section: "acts (allocation_section env) id"
  unfolding acts_def events_of_def
  by (auto simp: allocation_section_def allocation_body_def try_except_def plot_def eval_def
        emit_def split: sum.splits)

lemma acts_performance_section: "acts (performance_section env) id"
  unfolding acts_def events_of_def
  by (auto simp: performance_section_def performance_body_def try_except_def plot_def
        eval_def emit_def split: sum.splits)

lemma acts_revenue_section: "acts (revenue_section env) id"
  unfolding acts_def events_of_def
  by (auto simp: revenue_section_def revenue_body_def Let_def try_except_def plot_def eval_def
        emit_def split: sum.splits)

lemma acts_forecast_section: "acts (forecast_section env) id"
  unfolding acts_def events_of_def
  by (auto simp: forecast_section_def forecast_body_def Let_def try_except_def plot_def
        eval_def emit_def split: sum.splits)

lemma acts_growth_section: "acts (growth_section env) id"
  unfolding acts_def events_of_def
  by (auto simp: growth_section_def growth_body_def try_except_def plot_def eval_def emit_def
        split: sum.splits)

lemma acts_downloads: "acts downloads id"
  unfolding acts_def events_of_def by (simp add: downloads_def emit_def)

lemma chosen_member: "options \<noteq> [] \<Longrightarrow> \<exists>name \<in> set options. chosen env label options = Some name"
  by (simp add: chosen_def)

lemma datasets_lookup:
  "name \<in> set dataset_names \<Longrightarrow> \<exists>t. dict_getitem (datasets ts) (Some name) = Inr t"
  by (auto simp: dataset_names_def datasets_def dict_getitem_def)

lemma acts_exploration: "acts (exploration env) id"
proof -
  have "dataset_names \<noteq> []" by (simp add: dataset_names_def)
  from chosen_member[OF this] obtain name where
    n: "name \<in> set dataset_names"
       "chosen env ''Pilih dataset untuk dieksplorasi'' dataset_names = Some name"
    by blast
  have "exploration env s = (None, s\<lparr>out := out s @ events_of (exploration env) (tabs s)\<rparr>)"
    for s :: "'a state"
  proof -
    from datasets_lookup[OF n(1)] obtain t where
      "dict_getitem (datasets (tabs s)) (Some name) = Inr t" by blast
    with n(2) show ?thesis
      by (simp add: events_of_def exploration_def Let_def emit_def eval_def)
  qed
  then show ?thesis by (simp add: acts_def)
qed

lemma events_of_revenue_metrics:
  "events_of (revenue_section env) (ts\<lparr>metrics := m\<rparr>) = events_of (revenue_section env) ts"
  unfolding events_of_def
  by (auto simp: revenue_section_def revenue_body_def Let_def try_except_def plot_def eval_def
        emit_def split: sum.splits)

lemma events_of_downloads_metrics:
  "events_of downloads (ts\<lparr>metrics := m\<rparr>) = events_of downloads ts"
  unfolding events_of_def by (simp add: downloads_def emit_def)

lemma overview_eq:
  "overview env s =
     (None, s\<lparr>tabs := (tabs s)\<lparr>metrics := convert_all (to_num env) kpi_columns (metrics (tabs s))\<rparr>,
              out := out s @
                [Title ''Xerpihan Financial Analysis Dashboard'',
                 Header ''Indikator Kinerja Utama''] @
                events_of (kpi_section env) (tabs s) @
                [Subheader ''Tren Pendapatan per Skenario''] @
                events_of (revenue_section env) (tabs s) @
                [Subheader ''Unduh Data''] @
                events_of downloads (tabs s) @
                [Subheader ''Eksplorasi Data''] @
                events_of (exploration env)
                  ((tabs s)\<lparr>metrics := convert_all (to_num env) kpi_columns (metrics (tabs s))\<rparr>)\<rparr>)"
  by (simp add: overview_def emit_def actsD[OF acts_kpi_section] acts_idD[OF acts_revenue_section]
      acts_idD[OF acts_downloads] acts_idD[OF acts_exploration] events_of_revenue_metrics
      events_of_downloads_metrics)

lemma financial_analysis_eq:
  "financial_analysis env s =
     (None, s\<lparr>out := out s @
                [Title ''Analisis Kinerja Keuangan'',
                 Subheader ''Metrik Keuangan Utama per Skenario''] @
                events_of (metrics_chart env) (tabs s) @
                [Subheader ''Analisis Pertumbuhan''] @
                events_of (growth_chart env) (tabs s) @
                [Subheader ''Visualisasi Kustom''] @
                events_of (custom_section env) (tabs s)\<rparr>)"
  by (simp add: financial_analysis_def emit_def acts_idD[OF acts_metrics_chart]
      acts_idD[OF acts_growth_chart] acts_idD[OF acts_custom_section])

lemma risk_analysis_eq:
  "risk_analysis env s =
     (None, s\<lparr>out := out s @
                [Title ''Analisis Risiko'', Subheader ''Metrik Risiko per Skenario''] @
                events_of (risk_section env) (tabs s) @
                [Subheader ''Analisis Dekomposisi Risiko''] @
                events_of (decomposition_section env) (tabs s)\<rparr>)"
  by (simp add: risk_analysis_def emit_def acts_idD[OF acts_risk_section]
      acts_idD[OF acts_decomposition_section])

lemma portfolio_optimization_eq:
  "portfolio_optimization env s =
     (None, s\<lparr>out := out s @
                [Title ''Optimasi Portofolio'', Subheader ''Alokasi Portofolio per Metode''] @
                events_of (allocation_section env) (tabs s) @
                [Subheader ''Metrik Kinerja per Metode''] @
                events_of (performance_section env) (tabs s)\<rparr>)"
  by (simp add: portfolio_optimization_def emit_def acts_idD[OF acts_allocation_section]
      acts_idD[OF acts_performance_section])

lemma forecasting_eq:
  "forecasting env s =
     (None, s\<lparr>out := out s @
                [Title ''Peramalan Keuangan'', Subheader ''Peramalan Pendapatan per Skenario''] @
                events_of (forecast_section env) (tabs s) @
                [Subheader ''Analisis Tingkat Pertumbuhan''] @
                events_of (growth_section env) (tabs s)\<rparr>)"
  by (simp add: forecasting_def emit_def acts_idD[OF acts_forecast_section]
      acts_idD[OF acts_growth_section])

lemma acts_same:
  assumes "\<And>s. c s = (None, s\<lparr>out := out s @ G (tabs s)\<rparr>)"
  shows "acts c id"
proof -
  have "c s = (None, s\<lparr>tabs := (tabs s)\<lparr>metrics := id (metrics (tabs s))\<rparr>,
                        out := out s @ G (tabs s)\<rparr>)" for s
    by (simp add: assms)
  from actsI[where c = c and F = id and G = G, OF this] show ?thesis by simp
qed

lemma acts_overview: "acts (overview env) (convert_all (to_num env) kpi_columns)"
  using actsI[where c = "overview env" and F = "convert_all (to_num env) kpi_columns",
      OF overview_eq]
  by simp

lemma acts_financial_analysis: "acts (financial_analysis env) id"
  by (rule acts_same) (rule financial_analysis_eq)

lemma acts_risk_analysis: "acts (risk_analysis env) id"
  by (rule acts_same) (rule risk_analysis_eq)

lemma acts_portfolio_optimization: "acts (portfolio_optimization env) id"
  by (rule acts_same) (rule portfolio_optimization_eq)

lemma acts_forecasting: "acts (forecasting env) id"
  by (rule acts_same) (rule forecasting_eq)

lemma acts_nil: "acts (block []) id"
  by (simp add: acts_def events_of_def)

lemma acts_render_page: "acts (render_page env page) (page_effect env page)"
proof -
  consider "page = Some ''Overview''" | "page = Some ''Financial Analysis''"
    | "page = Some ''Risk Analysis''" | "page = Some ''Portfolio Optimization''"
    | "page = Some ''Forecasting''"
    | "page \<noteq> Some ''Overview''" "page \<noteq> Some ''Financial Analysis''"
      "page \<noteq> Some ''Risk Analysis''" "page \<noteq> Some ''Portfolio Optimization''"
      "page \<noteq> Some ''Forecasting''"
    by blast
  then show ?thesis
  proof cases
    case 1
    with acts_overview[of env] show ?thesis
      by (simp add: render_page_def page_effect_def)
  next
    case 2
    with acts_financial_analysis[of env] show ?thesis
      by (simp add: render_page_def page_effect_def)
  next
    case 3
    with acts_risk_analysis[of env] show ?thesis
      by (simp add: render_page_def page_effect_def)
  next
    case 4
    with acts_portfolio_optimization[of env] show ?thesis
      by (simp add: render_page_def page_effect_def)
  next
    case 5
    with acts_forecasting[of env] show ?thesis
      by (simp add: render_page_def page_effect_def)
  next
    case 6
    with acts_nil show ?thesis
      by (simp add: render_page_def page_effect_def)
  qed
qed

lemma section_completes: "acts c F \<Longrightarrow> fst (c s) = None"
  by (simp add: acts_def)

lemma tabs_render_page:
  "tabs (snd (render_page env page s)) =
     (tabs s)\<lparr>metrics := page_effect env page (metrics (tabs s))\<rparr>"
  by (simp add: actsD[OF acts_render_page])


lemma columns_convert_all: "columns (convert_all p cs m) = columns m"
proof (induction cs arbitrary: m)
  case Nil
  then show ?case by simp
next
  case (Cons c cs)
  show ?case
  proof (cases "map_of m c")
    case None
    then show ?thesis by simp
  next
    case (Some col)
    then have "c \<in> set (columns m)" by (simp add: in_columns_iff)
    with Some Cons show ?thesis by (simp add: columns_setitem)
  qed
qed

lemma map_of_convert_all:
  "map_of (convert_all p cs m) c = map_of m c \<or>
   (c \<in> set cs \<and> map_of (convert_all p cs m) c = map_option (to_numeric p) (map_of m c))"
proof (induction cs arbitrary: m)
  case Nil
  then show ?case by simp
next
  case (Cons c' cs)
  show ?case
  proof (cases "map_of m c'")
    case None
    then show ?thesis by simp
  next
    case (Some col)
    let ?m1 = "setitem m c' (to_numeric p col)"
    from Cons[of ?m1] Some show ?thesis
      by (cases "c = c'") (auto simp: map_of_setitem to_numeric_idem)
  qed
qed

lemma convert_all_no_text:
  "\<forall>c \<in> set cs. \<forall>col. map_of m c = Some col \<longrightarrow> \<not> list_ex is_text col \<Longrightarrow>
   convert_all p cs m = m"
proof (induction cs)
  case Nil
  then show ?case by simp
next
  case (Cons c cs)
  show ?case
  proof (cases "map_of m c")
    case None
    then show ?thesis by simp
  next
    case (Some col)
    with Cons.prems have "to_numeric p col = col" by (simp add: to_numeric_no_text)
    with Some Cons show ?thesis by (simp add: setitem_same)
  qed
qed


lemma demo_convert:
  "convert_all demo_parse kpi_columns demo_metrics =
     [(''Scenario'', [Str ''Optimistic'', Str ''Moderate'']),
      (''Revenue_CAGR'', [Num 12.5, Num 8]),
      (''Avg_EBITDA_Margin'', [Num 21.5, NaN]),
      (''Cost_to_Revenue'', [NaN, NaN]),
      (''Revenue_Volatility'', [Num 0.3, Num 0.2]),
      (''Margin_Volatility'', [Num 0.1, Num 0.1])]"
  by (simp add: kpi_columns_def demo_metrics_def demo_parse_def to_numeric_def)

text \<open>
  Claim C2, as amended. Rendering any page other than Overview leaves the six tables
  unchanged. Rendering Overview leaves five of them unchanged and changes
  \<open>metrics\<close> only so: the column names stay, and every column stays as it was or,
  if it is one of the three KPI columns, becomes its numeric coercion. When the KPI
  columns hold no text, Overview leaves \<open>metrics\<close> unchanged as well.
\<close>

theorem render_page_tables:
  "(page \<noteq> Some ''Overview'' \<longrightarrow> tabs (snd (render_page env page s)) = tabs s) \<and>
   (\<exists>m'. tabs (snd (render_page env page s)) = (tabs s)\<lparr>metrics := m'\<rparr> \<and>
         columns m' = columns (metrics (tabs s)) \<and>
         (\<forall>c. map_of m' c = map_of (metrics (tabs s)) c \<or>
              (c \<in> set kpi_columns \<and>
               map_of m' c = map_option (to_numeric (to_num env)) (map_of (metrics (tabs s)) c)))) \<and>
   ((\<forall>c \<in> set kpi_columns. \<forall>col. map_of (metrics (tabs s)) c = Some col \<longrightarrow>
        \<not> list_ex is_text col) \<longrightarrow>
    tabs (snd (render_page env page s)) = tabs s)"
proof -
  have r: "render_page env page s =
          (None, s\<lparr>tabs := (tabs s)\<lparr>metrics := page_effect env page (metrics (tabs s))\<rparr>,
                   out := out s @ events_of (render_page env page) (tabs s)\<rparr>)"
    by (rule actsD[OF acts_render_page])
  have 1: "page \<noteq> Some ''Overview'' \<longrightarrow> tabs (snd (render_page env page s)) = tabs s"
    by (simp add: r page_effect_def)
  let ?m' = "page_effect env page (metrics (tabs s))"
  have e: "?m' = metrics (tabs s) \<or> ?m' = convert_all (to_num env) kpi_columns (metrics (tabs s))"
    by (simp add: page_effect_def)
  have 2: "tabs (snd (render_page env page s)) = (tabs s)\<lparr>metrics := ?m'\<rparr>"
    by (simp add: r)
  have 3: "columns ?m' = columns (metrics (tabs s))"
    using e by (auto simp: columns_convert_all)
  have 4: "\<forall>c. map_of ?m' c = map_of (metrics (tabs s)) c \<or>
              (c \<in> set kpi_columns \<and>
               map_of ?m' c = map_option (to_numeric (to_num env)) (map_of (metrics (tabs s)) c))"
  proof (cases "?m' = metrics (tabs s)")
    case True
    then show ?thesis by simp
  next
    case False
    with e have "?m' = convert_all (to_num env) kpi_columns (metrics (tabs s))" by simp
    then show ?thesis
      using map_of_convert_all[of "to_num env" kpi_columns "metrics (tabs s)"] by simp
  qed
  have 5: "(\<forall>c \<in> set kpi_columns. \<forall>col. map_of (metrics (tabs s)) c = Some col \<longrightarrow>
        \<not> list_ex is_text col) \<longrightarrow> tabs (snd (render_page env page s)) = tabs s"
  proof
    assume "\<forall>c \<in> set kpi_columns. \<forall>col. map_of (metrics (tabs s)) c = Some col \<longrightarrow>
        \<not> list_ex is_text col"
    from convert_all_no_text[OF this] e have "?m' = metrics (tabs s)" by auto
    with 2 show "tabs (snd (render_page env page s)) = tabs s" by simp
  qed
  from 1 2 3 4 5 show ?thesis by blast
qed

theorem render_page_tables_witness:
  "Some ''Risk Analysis'' \<noteq> Some ''Overview'' \<and>
   tabs (snd (render_page demo_env (Some ''Risk Analysis'') (start demo_tables))) = demo_tables \<and>
   map_of demo_summary ''Revenue_CAGR'' = Some [Num 12.5, Num 8] \<and>
   map_of demo_summary ''Avg_EBITDA_Margin'' = None \<and>
   map_of demo_summary ''Cost_to_Revenue'' = None \<and>
   tabs (snd (render_page demo_env (Some ''Overview'')
     (start (demo_tables\<lparr>metrics := demo_summary\<rparr>)))) = demo_tables\<lparr>metrics := demo_summary\<rparr>"
proof -
  have h: "\<forall>c \<in> set kpi_columns. \<forall>col.
      map_of (metrics (tabs (start (demo_tables\<lparr>metrics := demo_summary\<rparr>)))) c = Some col \<longrightarrow>
      \<not> list_ex is_text col"
    by (auto simp: kpi_columns_def start_def demo_summary_def)
  from render_page_tables[of "Some ''Risk Analysis''" demo_env "start demo_tables"]
    render_page_tables[of "Some ''Overview''" demo_env
      "start (demo_tables\<lparr>metrics := demo_summary\<rparr>)"] h
  show ?thesis by (simp add: start_def demo_summary_def)
qed

text \<open>
  Claim C2 as stated fails on the Overview page: the column \<^verbatim>\<open>Avg_EBITDA_Margin\<close>
  of \<open>metrics\<close> holds the texts \<^verbatim>\<open>21.5\<close> and \<^verbatim>\<open>unknown\<close> before the page is
  rendered, and the number 21.5 and NaN after.
\<close>

theorem render_page_tables_counterexample:
  "map_of (metrics (tabs (snd (render_page demo_env (Some ''Overview'') (start demo_tables)))))
     ''Avg_EBITDA_Margin'' = Some [Num 21.5, NaN] \<and>
   map_of (metrics (tabs (start demo_tables))) ''Avg_EBITDA_Margin'' =
     Some [Str ''21.5'', Str ''unknown'']"
proof -
  have "tabs (start demo_tables) = demo_tables" by (simp add: start_def)
  moreover have "metrics demo_tables = demo_metrics" by (simp add: demo_tables_def)
  moreover have "to_num demo_env = demo_parse" by (simp add: demo_env_def)
  ultimately have "metrics (tabs (snd (render_page demo_env (Some ''Overview'') (start demo_tables)))) =
      convert_all demo_parse kpi_columns demo_metrics"
    by (simp add: tabs_render_page page_effect_def)
  then show ?thesis
    by (simp add: demo_convert) (simp add: start_def demo_tables_def demo_metrics_def)
qed






lemma exact_mean_example: "exact_mean [12.5, 8]"
proof -
  have a: "list_ex (\<lambda>k. list_all (\<lambda>x. of_int \<lfloor>x * 2 ^ k\<rfloor> = x * 2 ^ k) [12.5, 8 :: rat] \<and>
                        sum_list (map abs [12.5, 8 :: rat]) * 2 ^ k < 2 ^ 53) [0..<1075]"
    unfolding list_ex_iff by (rule bexI[of _ 1]) simp_all
  have b: "binary64 (sum_list [12.5, 8] / of_nat (length [12.5, 8 :: rat]))"
    unfolding binary64_def list_ex_iff by (rule bexI[of _ 2]) simp_all
  from a b show ?thesis unfolding exact_mean_def by (rule conjI)
qed

lemma mean64_example: "mean64 lib [Fin 12.5, Fin 8] = Fin 10.25"
proof -
  have "present [Fin 12.5, Fin 8] = [Fin 12.5, Fin 8]" by (simp add: present_def)
  moreover have "finite_values [Fin 12.5, Fin 8] = Some [12.5, 8]" by simp
  moreover have "sum_list [12.5, 8 :: rat] / of_nat (length [12.5, 8 :: rat]) = 10.25" by simp
  ultimately show ?thesis
    unfolding mean64_def using exact_mean_example by (simp del: sum_list.Cons list.size)
qed

lemma fmt2f_example: "fmt2f (Fin 10.25) = ''10.25''"
  by (simp add: round_half_even_def str_nat.simps digit_def Let_def)

lemma tile_example: "tile env [Num 12.5, Num 8] = ''10.25%''"
proof -
  have "floats [Num 12.5, Num 8] = [Fin 12.5, Fin 8]" by simp
  then have "tile env [Num 12.5, Num 8] = fmt2f (Fin 10.25) @ ''%''"
    unfolding tile_def by (simp only: mean64_example)
  then show ?thesis by (simp only: fmt2f_example) simp
qed




section \<open>Properties of the KPI computation\<close>

text \<open>
  Claim C3, as amended. For a \<open>metrics\<close> table whose column \<^verbatim>\<open>Revenue_CAGR\<close>
  holds 12.5 and 8.0 (the rows of Optimistic and Moderate) and which also has the columns
  \<^verbatim>\<open>Avg_EBITDA_Margin\<close> and \<^verbatim>\<open>Cost_to_Revenue\<close>, the mean of
  \<^verbatim>\<open>Revenue_CAGR\<close> is 10.25 and the first tile of the Overview page shows
  \<^verbatim>\<open>10.25%\<close>.
\<close>

theorem kpi_revenue_cagr_tile:
  assumes "map_of (metrics (tabs s)) ''Revenue_CAGR'' = Some [Num 12.5, Num 8]"
    and "''Avg_EBITDA_Margin'' \<in> set (columns (metrics (tabs s)))"
    and "''Cost_to_Revenue'' \<in> set (columns (metrics (tabs s)))"
  shows "series_mean (lib_text env) (float_mean env)
           (to_numeric (to_num env) [Num 12.5, Num 8]) = Inr (Fin 10.25) \<and>
         (\<exists>w a b. out (snd (kpi_section env s)) =
            out s @ w @ [Metric ''Rata-rata Revenue CAGR'' ''10.25%'',
                         Metric ''Rata-rata EBITDA Margin'' a,
                         Metric ''Rata-rata Efisiensi Biaya'' b] \<and>
            filter is_metric w = [])"
proof -
  from assms(2) obtain col2 where c2: "map_of (metrics (tabs s)) ''Avg_EBITDA_Margin'' = Some col2"
    by (auto simp: in_columns_iff)
  from assms(3) obtain col3 where c3: "map_of (metrics (tabs s)) ''Cost_to_Revenue'' = Some col3"
    by (auto simp: in_columns_iff)
  have n: "to_numeric (to_num env) [Num 12.5, Num 8] = [Num 12.5, Num 8]"
    by (simp add: to_numeric_def)
  have "floats [Num 12.5, Num 8] = [Fin 12.5, Fin 8]" by simp
  then have "series_mean (lib_text env) (float_mean env) [Num 12.5, Num 8] = Inr (Fin 10.25)"
    unfolding series_mean_def by (simp only: mean64_example) simp
  then have 1: "series_mean (lib_text env) (float_mean env)
           (to_numeric (to_num env) [Num 12.5, Num 8]) = Inr (Fin 10.25)"
    by (simp only: n)
  define w :: "'a event list" where "w =
     (if NaN \<in> set (to_numeric (to_num env) col2) \<or> NaN \<in> set (to_numeric (to_num env) col3)
      then [Warning ''Beberapa data numerik tidak valid dan diubah menjadi NaN. Periksa data Anda.'']
      else [])"
  have "out (snd (kpi_section env s)) =
      out s @ w @ [Metric ''Rata-rata Revenue CAGR'' ''10.25%'',
                   Metric ''Rata-rata EBITDA Margin'' (tile env (to_numeric (to_num env) col2)),
                   Metric ''Rata-rata Efisiensi Biaya'' (tile env (to_numeric (to_num env) col3))]"
    using assms(1) c2 c3 unfolding kpi_section_eq kpi_shown_def w_def
    by (simp only: option.case n tile_example) simp
  moreover have "filter is_metric w = []" by (simp add: w_def)
  ultimately show ?thesis using 1 by blast
qed

theorem kpi_revenue_cagr_tile_witness:
  "map_of (metrics (tabs (start demo_tables))) ''Revenue_CAGR'' = Some [Num 12.5, Num 8] \<and>
   ''Avg_EBITDA_Margin'' \<in> set (columns (metrics (tabs (start demo_tables)))) \<and>
   ''Cost_to_Revenue'' \<in> set (columns (metrics (tabs (start demo_tables)))) \<and>
   Metric ''Rata-rata Revenue CAGR'' ''10.25%'' \<in>
     set (out (snd (kpi_section demo_env (start demo_tables))))"
proof -
  have 1: "map_of (metrics (tabs (start demo_tables))) ''Revenue_CAGR'' = Some [Num 12.5, Num 8]"
    by (simp add: start_def demo_tables_def demo_metrics_def)
  have 2: "''Avg_EBITDA_Margin'' \<in> set (columns (metrics (tabs (start demo_tables))))"
    by (simp add: start_def demo_tables_def demo_metrics_def columns_def)
  have 3: "''Cost_to_Revenue'' \<in> set (columns (metrics (tabs (start demo_tables))))"
    by (simp add: start_def demo_tables_def demo_metrics_def columns_def)
  from kpi_revenue_cagr_tile[OF 1 2 3, of demo_env] 1 2 3 show ?thesis by auto
qed

text \<open>
  Claim C3 as stated fails for a table that has the two columns \<^verbatim>\<open>Scenario\<close> and
  \<^verbatim>\<open>Revenue_CAGR\<close> only: the conversion of \<^verbatim>\<open>Avg_EBITDA_Margin\<close> raises
  \<^verbatim>\<open>KeyError\<close> before any mean is computed, and the block shows that error and no
  tile.
\<close>

theorem kpi_two_columns_counterexample:
  "out (snd (kpi_section demo_env (start (demo_tables\<lparr>metrics :=
      [(''Scenario'', [Str ''Optimistic'', Str ''Moderate'']),
       (''Revenue_CAGR'', [Num 12.5, Num 8])]\<rparr>)))) =
     [Error (''Error saat mengkonversi data numerik: '' @ quote ''Avg_EBITDA_Margin'')]"
  by (simp add: kpi_section_eq kpi_shown_def kpi_error_def start_def)









section \<open>Properties of the revenue filter\<close>














section \<open>Properties of the growth columns and of the dataset selector\<close>

lemma growth_section_no_column:
  assumes "growth_cols (growth_data (tabs s)) = []"
  shows "growth_section env s =
     (None, s\<lparr>out := out s @
        [Error ''Error: Tidak ada kolom pertumbuhan yang ditemukan di growth_data.'']\<rparr>)"
  using assms by (simp add: growth_section_def growth_body_def try_except_def emit_def)

text \<open>
  Claim C6. The growth columns of a table are exactly its columns whose name contains
  the text \<^verbatim>\<open>Growth\<close>, in the order of the table's columns. On a table with the
  columns \<^verbatim>\<open>Scenario, Revenue_Growth, EBITDA_Growth, Notes\<close> they are
  \<^verbatim>\<open>Revenue_Growth\<close> and \<^verbatim>\<open>EBITDA_Growth\<close>, in that order. When no column
  matches, the section shows the missing-column error and no chart.
\<close>

theorem growth_cols_discovery:
  "growth_cols t = filter (\<lambda>col. \<exists>pre post. col = pre @ ''Growth'' @ post) (columns t) \<and>
   growth_cols [(''Scenario'', a), (''Revenue_Growth'', b), (''EBITDA_Growth'', c), (''Notes'', d)] =
     [''Revenue_Growth'', ''EBITDA_Growth''] \<and>
   (growth_cols (growth_data (tabs s)) = [] \<longrightarrow>
      growth_section env s =
        (None, s\<lparr>out := out s @
           [Error ''Error: Tidak ada kolom pertumbuhan yang ditemukan di growth_data.'']\<rparr>))"
proof -
  have 1: "growth_cols t = filter (\<lambda>col. \<exists>pre post. col = pre @ ''Growth'' @ post) (columns t)"
    by (simp add: growth_cols_def str_in_iff)
  have 2: "growth_cols [(''Scenario'', a), (''Revenue_Growth'', b), (''EBITDA_Growth'', c), (''Notes'', d)] =
     [''Revenue_Growth'', ''EBITDA_Growth'']"
    by (simp add: growth_cols_def columns_def)
  from 1 2 growth_section_no_column show ?thesis by blast
qed

theorem growth_cols_discovery_witness:
  "growth_cols demo_growth = [''Revenue_Growth'', ''EBITDA_Growth''] \<and>
   growth_cols (growth_data (tabs (start (demo_tables\<lparr>growth_data :=
     [(''Scenario'', [Str ''Optimistic'']), (''growth'', [Num 1])]\<rparr>)))) = [] \<and>
   out (snd (growth_section demo_env (start (demo_tables\<lparr>growth_data :=
     [(''Scenario'', [Str ''Optimistic'']), (''growth'', [Num 1])]\<rparr>)))) =
     [Error ''Error: Tidak ada kolom pertumbuhan yang ditemukan di growth_data.'']"
proof -
  let ?s = "start (demo_tables\<lparr>growth_data :=
     [(''Scenario'', [Str ''Optimistic'']), (''growth'', [Num 1])]\<rparr>)"
  have g: "growth_cols (growth_data (tabs ?s)) = []"
    by (simp add: start_def growth_cols_def columns_def)
  have "growth_cols demo_growth = [''Revenue_Growth'', ''EBITDA_Growth'']"
    unfolding demo_growth_def
    using growth_cols_discovery[of demo_growth "[Str ''Optimistic'', Str ''Moderate'']"
      "[Num 0.1, Num 0.05]" "[Num 0.2, NaN]" "[Str ''a'', Str ''b'']" ?s demo_env]
    by blast
  moreover have "growth_section demo_env ?s =
        (None, ?s\<lparr>out := out ?s @
           [Error ''Error: Tidak ada kolom pertumbuhan yang ditemukan di growth_data.'']\<rparr>)"
    using growth_cols_discovery[of demo_growth "[]" "[]" "[]" "[]" ?s demo_env] g by blast
  then have "out (snd (growth_section demo_env ?s)) =
      [Error ''Error: Tidak ada kolom pertumbuhan yang ditemukan di growth_data.'']"
    by (simp add: start_def)
  ultimately show ?thesis using g by blast
qed

text \<open>
  Claim C10. For each of the five dataset names that the selector of the Overview page
  offers, the lookup in \<open>datasets\<close> succeeds and yields the table of that name; the
  selector returns one of these names, so that the exploration never raises
  \<^verbatim>\<open>KeyError\<close>. The names offered are exactly the keys, and the forecast table is
  not among the values: replacing it changes nothing in \<open>datasets\<close>.
\<close>

theorem dataset_lookup_succeeds:
  "(\<forall>name \<in> set dataset_names. \<exists>t. dict_getitem (datasets ts) (Some name) = Inr t) \<and>
   dict_getitem (datasets ts) (Some ''Combined Data'') = Inr (combined_data ts) \<and>
   dict_getitem (datasets ts) (Some ''Growth Data'') = Inr (growth_data ts) \<and>
   dict_getitem (datasets ts) (Some ''Metrics'') = Inr (metrics ts) \<and>
   dict_getitem (datasets ts) (Some ''Final Summary'') = Inr (final_summary ts) \<and>
   dict_getitem (datasets ts) (Some ''Financial Metrics'') = Inr (financial_metrics ts) \<and>
   (\<exists>name \<in> set dataset_names.
      chosen env ''Pilih dataset untuk dieksplorasi'' dataset_names = Some name) \<and>
   fst (exploration env s) = None \<and>
   map fst (datasets ts) = dataset_names \<and>
   datasets (ts\<lparr>forecast_combined := fc\<rparr>) = datasets ts"
proof -
  have 1: "\<forall>name \<in> set dataset_names. \<exists>t. dict_getitem (datasets ts) (Some name) = Inr t"
    using datasets_lookup by blast
  have 2: "dict_getitem (datasets ts) (Some ''Combined Data'') = Inr (combined_data ts)"
    "dict_getitem (datasets ts) (Some ''Growth Data'') = Inr (growth_data ts)"
    "dict_getitem (datasets ts) (Some ''Metrics'') = Inr (metrics ts)"
    "dict_getitem (datasets ts) (Some ''Final Summary'') = Inr (final_summary ts)"
    "dict_getitem (datasets ts) (Some ''Financial Metrics'') = Inr (financial_metrics ts)"
    by (simp_all add: datasets_def dict_getitem_def)
  have "dataset_names \<noteq> []" by (simp add: dataset_names_def)
  from chosen_member[OF this]
  have 3: "\<exists>name \<in> set dataset_names.
      chosen env ''Pilih dataset untuk dieksplorasi'' dataset_names = Some name" .
  have 4: "fst (exploration env s) = None"
    using acts_exploration by (rule section_completes)
  have 5: "map fst (datasets ts) = dataset_names"
    by (simp add: datasets_def dataset_names_def)
  have 6: "datasets (ts\<lparr>forecast_combined := fc\<rparr>) = datasets ts"
    by (simp add: datasets_def)
  from 1 2 3 4 5 6 show ?thesis by blast
qed

theorem dataset_lookup_succeeds_witness:
  "''Metrics'' \<in> set dataset_names \<and>
   dict_getitem (datasets demo_tables) (Some ''Metrics'') = Inr demo_metrics \<and>
   fst (exploration demo_env (start demo_tables)) = None"
proof -
  have "''Metrics'' \<in> set dataset_names" by (simp add: dataset_names_def)
  moreover have "metrics demo_tables = demo_metrics" by (simp add: demo_tables_def)
  ultimately show ?thesis
    using dataset_lookup_succeeds[of demo_tables demo_env "start demo_tables"] by simp
qed
end
